theory Spec2Isabelle
  imports Complex_Main
begin

section \<open>JavaScript values the pipeline handles\<close>

text \<open>
  A thrown value is either an \<open>Error\<close> object, of which the code reads \<open>name\<close> and
  \<open>message\<close>, or some other value. A computation that may throw returns
  \<open>js_exn + 'a\<close>, with \<open>Inl\<close> the thrown value.
\<close>

datatype js_exn = JsError string string | JsThrown

fun exn_name :: "js_exn \<Rightarrow> string option" where
  "exn_name (JsError n m) = Some n"
| "exn_name JsThrown = None"

text \<open>\<^verbatim>\<open>error instanceof Error ? error.message : 'Unknown error'\<close>\<close>

fun error_message :: "js_exn \<Rightarrow> string" where
  "error_message (JsError n m) = m"
| "error_message JsThrown = ''Unknown error''"

section \<open>Strings and the regular expressions the code uses\<close>

text \<open>
  Strings are lists of 8-bit code units, so text outside that range is not represented.
  \<open>toLowerCase\<close> maps the ASCII capitals to their small letters and leaves every other
  unit alone, where the code's \<open>toLowerCase\<close> also lowers the capitals outside ASCII
  (among them U+212A, the Kelvin sign, which it turns into \<open>k\<close>). The two agree on ASCII
  text.
\<close>

definition to_lower_char :: "char \<Rightarrow> char" where
  "to_lower_char c =
     (if 65 \<le> (of_char c :: nat) \<and> (of_char c :: nat) \<le> 90
      then char_of (of_char c + 32 :: nat) else c)"

definition toLowerCase :: "string \<Rightarrow> string" where
  "toLowerCase s = map to_lower_char s"

fun starts_with :: "string \<Rightarrow> string \<Rightarrow> bool" where
  "starts_with s [] = True"
| "starts_with [] (p # ps) = False"
| "starts_with (c # cs) (p # ps) = (c = p \<and> starts_with cs ps)"

text \<open>\<^verbatim>\<open>s.includes(sub)\<close>\<close>

fun str_includes :: "string \<Rightarrow> string \<Rightarrow> bool" where
  "str_includes [] sub = (sub = [])"
| "str_includes (c # cs) sub = (starts_with (c # cs) sub \<or> str_includes cs sub)"

text \<open>
  The regular expressions of the two files are built from literal text, \<open>.*\<close>, \<open>\d\<close>
  (with \<open>\d{4}\<close> four of them), top-level alternation, a leading \<open>^\<close> and the flag \<open>i\<close>.
  None has the flag \<open>g\<close> or \<open>y\<close>, so \<open>test\<close> reads no \<open>lastIndex\<close> and always searches from
  the start of the string. \<open>.\<close> matches any unit but a line terminator: line feed and
  carriage return here, the two that 8-bit units can hold (the code's \<open>.\<close> also refuses
  U+2028 and U+2029).
\<close>

datatype rx_atom = Lit string | DotStar | Digit

datatype regex =
  Regex (rx_anchored: bool) (rx_ignoreCase: bool) (rx_alts: "rx_atom list list")

definition is_digit :: "char \<Rightarrow> bool" where
  "is_digit c = (48 \<le> (of_char c :: nat) \<and> (of_char c :: nat) \<le> 57)"

definition line_terminator :: "char \<Rightarrow> bool" where
  "line_terminator c = (c = CHR 0x0A \<or> c = CHR 0x0D)"

text \<open>The literal \<open>l\<close> at the head of \<open>s\<close>: what is left of \<open>s\<close> after it.\<close>

fun lit_match :: "bool \<Rightarrow> string \<Rightarrow> string \<Rightarrow> string option" where
  "lit_match ic [] s = Some s"
| "lit_match ic (l # ls) [] = None"
| "lit_match ic (l # ls) (c # cs) =
     (if (if ic then to_lower_char l = to_lower_char c else l = c)
      then lit_match ic ls cs else None)"

text \<open>The sequence of atoms matches at the head of the string.\<close>

fun match_here :: "bool \<Rightarrow> rx_atom list \<Rightarrow> string \<Rightarrow> bool" where
  "match_here ic [] s = True"
| "match_here ic (Lit l # r) s =
     (case lit_match ic l s of None \<Rightarrow> False | Some rest \<Rightarrow> match_here ic r rest)"
| "match_here ic (Digit # r) [] = False"
| "match_here ic (Digit # r) (c # cs) = (is_digit c \<and> match_here ic r cs)"
| "match_here ic (DotStar # r) [] = match_here ic r []"
| "match_here ic (DotStar # r) (c # cs) =
     (match_here ic r (c # cs) \<or> (\<not> line_terminator c \<and> match_here ic (DotStar # r) cs))"

text \<open>The sequence of atoms matches somewhere in the string.\<close>

fun rx_search :: "bool \<Rightarrow> rx_atom list \<Rightarrow> string \<Rightarrow> bool" where
  "rx_search ic pat [] = match_here ic pat []"
| "rx_search ic pat (c # cs) = (match_here ic pat (c # cs) \<or> rx_search ic pat cs)"

text \<open>\<^verbatim>\<open>re.test(s)\<close>\<close>

definition rx_test :: "regex \<Rightarrow> string \<Rightarrow> bool" where
  "rx_test re s =
     list_ex (\<lambda>alt. if rx_anchored re then match_here (rx_ignoreCase re) alt s
                    else rx_search (rx_ignoreCase re) alt s) (rx_alts re)"

section \<open>The provider controller (src/lib/providers/llm-controller.ts)\<close>

datatype ProviderType = GROQ | HUGGINGFACE

fun provider_string :: "ProviderType \<Rightarrow> string" where
  "provider_string GROQ = ''groq''"
| "provider_string HUGGINGFACE = ''huggingface''"

record ProviderResponse =
  content :: string
  usage :: "(nat \<times> nat \<times> nat) option"
  model :: string
  provider :: string

record ProviderHealthStatus =
  isHealthy :: bool
  lastError :: "string option"
  lastChecked :: int
  responseTime :: "int option"

text \<open>
  The interface \<open>LLMProvider\<close>. A provider talks to the network and keeps a health record,
  so its methods read and change the world \<open>'w\<close> (network, clock, the providers' own
  fields); \<open>generateResponse\<close> resolves with a response or rejects with a thrown value.
\<close>

record 'w LLMProvider =
  p_name :: ProviderType
  p_isAvailable :: "'w \<Rightarrow> bool \<times> 'w"
  p_generateResponse :: "string \<Rightarrow> 'w \<Rightarrow> (js_exn + ProviderResponse) \<times> 'w"
  p_getHealthStatus :: "'w \<Rightarrow> ProviderHealthStatus"

record failure_entry =
  fe_provider :: string
  fe_error :: string
  fe_timestamp :: int

record 'w LLMProviderController =
  providers :: "'w LLMProvider list"
  failureLog :: "failure_entry list"

definition UNABLE :: string where
  "UNABLE = ''System currently unable to generate result. Please retry.''"

text \<open>
  The \<open>for ... of\<close> loop of \<open>generateResponse\<close> with its \<open>try\<close>/\<open>catch\<close> body, over the
  providers still to be tried. \<open>now\<close> is the clock read by \<open>new Date()\<close>. The \<open>catch\<close>
  block pushes onto the failure log and continues; leaving the loop returns the fixed
  message.
\<close>

fun try_providers ::
  "('w \<Rightarrow> int) \<Rightarrow> 'w LLMProvider list \<Rightarrow> string \<Rightarrow> failure_entry list \<Rightarrow> 'w
    \<Rightarrow> (js_exn + string) \<times> failure_entry list \<times> 'w" where
  "try_providers now [] prompt flog w = (Inr UNABLE, flog, w)"
| "try_providers now (p # ps) prompt flog w =
     (case p_generateResponse p prompt w of
        (Inr response, w') \<Rightarrow> (Inr (content response), flog, w')
      | (Inl error, w') \<Rightarrow>
          try_providers now ps prompt
            (flog @ [\<lparr>fe_provider = provider_string (p_name p),
                     fe_error = error_message error,
                     fe_timestamp = now w'\<rparr>]) w')"

definition generateResponse ::
  "('w \<Rightarrow> int) \<Rightarrow> 'w LLMProviderController \<Rightarrow> string \<Rightarrow> 'w
    \<Rightarrow> (js_exn + string) \<times> 'w LLMProviderController \<times> 'w" where
  "generateResponse now ctl prompt w =
     (if length (providers ctl) = 0 then (Inr UNABLE, ctl, w)
      else (case try_providers now (providers ctl) prompt (failureLog ctl) w of
              (r, flog, w') \<Rightarrow> (r, ctl\<lparr>failureLog := flog\<rparr>, w')))"

text \<open>\<^verbatim>\<open>xs.slice(-n)\<close>: the last \<open>n\<close> elements, all of them when there are fewer.\<close>

definition slice_last :: "nat \<Rightarrow> 'a list \<Rightarrow> 'a list" where
  "slice_last n xs = drop (length xs - n) xs"

record SystemHealth =
  sh_providers :: "(ProviderType \<times> ProviderHealthStatus) list"
  recentFailures :: "failure_entry list"
  sh_timestamp :: int

definition getSystemHealth ::
  "('w \<Rightarrow> int) \<Rightarrow> 'w LLMProviderController \<Rightarrow> 'w \<Rightarrow> SystemHealth" where
  "getSystemHealth now ctl w =
     \<lparr>sh_providers = map (\<lambda>p. (p_name p, p_getHealthStatus p w)) (providers ctl),
      recentFailures = slice_last 10 (failureLog ctl),
      sh_timestamp = now w\<rparr>"

text \<open>A sequence of \<open>generateResponse\<close> calls on one controller, one per prompt.\<close>

fun generate_all ::
  "('w \<Rightarrow> int) \<Rightarrow> string list \<Rightarrow> 'w LLMProviderController \<Rightarrow> 'w
    \<Rightarrow> 'w LLMProviderController \<times> 'w" where
  "generate_all now [] ctl w = (ctl, w)"
| "generate_all now (q # qs) ctl w =
     (case generateResponse now ctl q w of (r, ctl', w') \<Rightarrow> generate_all now qs ctl' w')"

text \<open>
  The run of the loop in which every provider rejects: each provider is called in the
  world its predecessors left.
\<close>

fun all_fail :: "'w LLMProvider list \<Rightarrow> string \<Rightarrow> 'w \<Rightarrow> bool" where
  "all_fail [] prompt w = True"
| "all_fail (p # ps) prompt w =
     (case p_generateResponse p prompt w of
        (Inl error, w') \<Rightarrow> all_fail ps prompt w'
      | (Inr response, w') \<Rightarrow> False)"

text \<open>Test doubles: a provider that always rejects, one that always resolves. The world
  is a counter of calls made, which also serves as the clock.\<close>

definition failing_provider :: "ProviderType \<Rightarrow> string \<Rightarrow> nat LLMProvider" where
  "failing_provider n msg =
     \<lparr>p_name = n,
      p_isAvailable = (\<lambda>w. (False, w)),
      p_generateResponse = (\<lambda>prompt w. (Inl (JsError ''Error'' msg), Suc w)),
      p_getHealthStatus =
        (\<lambda>w. \<lparr>isHealthy = False, lastError = Some msg, lastChecked = int w,
               responseTime = None\<rparr>)\<rparr>"

definition answering_provider :: "ProviderType \<Rightarrow> string \<Rightarrow> nat LLMProvider" where
  "answering_provider n c =
     \<lparr>p_name = n,
      p_isAvailable = (\<lambda>w. (True, w)),
      p_generateResponse =
        (\<lambda>prompt w. (Inr \<lparr>content = c, usage = None, model = ''m'',
                            provider = provider_string n\<rparr>, Suc w)),
      p_getHealthStatus =
        (\<lambda>w. \<lparr>isHealthy = True, lastError = None, lastChecked = int w,
               responseTime = None\<rparr>)\<rparr>"

section \<open>The response validator (src/lib/providers/llm-controller.ts)\<close>

definition obviousTemplates :: "regex list" where
  "obviousTemplates =
     [Regex True True [[Lit ''here's a fun fact about'']],
      Regex True True [[Lit ''did you know that the ocean'']],
      Regex False True [[Lit ''this is a placeholder'']],
      Regex False True [[Lit ''lorem ipsum'']],
      Regex False True [[Lit ''sample data shows'']]]"

definition obviousHardcoded :: "string list" where
  "obviousHardcoded = [''this is sample data'', ''placeholder response'', ''mock analysis'']"

text \<open>
  \<open>ResponseValidator.validateResponse\<close>: the early return on the flag, the loop over the
  template patterns, the loop over the hardcoded phrases. The warnings it prints are
  left out.
\<close>

definition validateResponse :: "string \<Rightarrow> bool \<Rightarrow> bool" where
  "validateResponse response hasRealData =
     (if \<not> hasRealData then False
      else if list_ex (\<lambda>pattern. rx_test pattern response) obviousTemplates then False
      else if list_ex (\<lambda>hardcoded. str_includes (toLowerCase response) (toLowerCase hardcoded))
                obviousHardcoded then False
      else True)"

section \<open>The orchestrator (src/lib/mcp/orchestrator.ts)\<close>

text \<open>
  The methods of the orchestrator and of its failure handler are embedded one by one.
  An \<open>async\<close> method that talks to the network takes the world and returns the new one
  with its result; each \<open>await\<close> is the next step in sequence; a rejected promise and a
  thrown value are both \<open>Inl\<close>. What the methods print to the console is left out.
\<close>

subsection \<open>Query classification by pattern matching\<close>

datatype QueryType = KNOWLEDGE_DRIVEN | DATA_DRIVEN | HYBRID

datatype UserMode = EXPLORER | POWER

record Classification =
  c_type :: QueryType
  c_requiresData :: bool
  c_conceptualTopic :: "string option"

definition knowledgePatterns :: "regex list" where
  "knowledgePatterns =
     [Regex False True [[Lit ''how do'', DotStar, Lit ''affect'']],
      Regex False True [[Lit ''what causes'']],
      Regex False True [[Lit ''why do'', DotStar, Lit ''occur'']],
      Regex False True [[Lit ''explain'', DotStar, Lit ''process'']],
      Regex False True [[Lit ''what is'', DotStar, Lit ''effect'']],
      Regex False True [[Lit ''what is'', DotStar]],
      Regex False True [[Lit ''relationship between'']],
      Regex False True [[Lit ''impact'', DotStar, Lit ''on'']],
      Regex False True [[Lit ''role'', DotStar, Lit ''in'']],
      Regex False True [[Lit ''mechanism'', DotStar, Lit ''behind'']],
      Regex False True [[Lit ''factors'', DotStar, Lit ''influence'']]]"

definition dataPatterns :: "regex list" where
  "dataPatterns =
     [Regex False True [[Lit ''temperature'', DotStar, Lit ''in'', DotStar,
                         Digit, Digit, Digit, Digit]],
      Regex False True [[Lit ''salinity'', DotStar, Lit ''near'', DotStar,
                         Digit, Digit, Digit, Digit]],
      Regex False True [[Lit ''sst'', DotStar, Lit ''data'']],
      Regex False True [[Lit ''measurements'', DotStar, Lit ''from'']],
      Regex False True [[Lit ''profiles'', DotStar, Lit ''in'']],
      Regex False True [[Lit ''show'', DotStar, Lit ''data'']],
      Regex False True [[Lit ''values'', DotStar, Lit ''for'']],
      Regex False True [[Lit ''readings'', DotStar, Lit ''between'']]]"

definition year_pattern :: regex where
  "year_pattern = Regex False False [[Digit, Digit, Digit, Digit]]"

definition place_pattern :: regex where
  "place_pattern =
     Regex False True [[Lit ''pacific''], [Lit ''atlantic''], [Lit ''indian''],
                       [Lit ''equator''], [Lit ''latitude''], [Lit ''longitude'']]"

definition hybrid_pattern :: regex where
  "hybrid_pattern =
     Regex False True [[Lit ''patterns''], [Lit ''trends''], [Lit ''changes''],
                       [Lit ''variations'']]"

text \<open>The topic of a knowledge query: five \<open>if\<close>s in a row, so the last that holds wins.\<close>

definition knowledge_topic :: "string \<Rightarrow> string" where
  "knowledge_topic lowerQuery =
     (let topic = ''ocean science'';
          topic = (if str_includes lowerQuery ''weather''
                   then ''ocean-atmosphere interactions'' else topic);
          topic = (if str_includes lowerQuery ''climate''
                   then ''ocean-climate interactions'' else topic);
          topic = (if str_includes lowerQuery ''current''
                   then ''ocean circulation'' else topic);
          topic = (if str_includes lowerQuery ''temperature''
                   then ''ocean temperature processes'' else topic);
          topic = (if str_includes lowerQuery ''salinity''
                   then ''ocean salinity processes'' else topic)
      in topic)"

definition classifyQuery :: "string \<Rightarrow> Classification" where
  "classifyQuery query =
     (let lowerQuery = toLowerCase query in
      if list_ex (\<lambda>pattern. rx_test pattern query) knowledgePatterns
      then \<lparr>c_type = KNOWLEDGE_DRIVEN, c_requiresData = False,
            c_conceptualTopic = Some (knowledge_topic lowerQuery)\<rparr>
      else if list_ex (\<lambda>pattern. rx_test pattern query) dataPatterns
      then \<lparr>c_type = DATA_DRIVEN, c_requiresData = True, c_conceptualTopic = None\<rparr>
      else if rx_test year_pattern query \<and> rx_test place_pattern query
      then \<lparr>c_type = DATA_DRIVEN, c_requiresData = True, c_conceptualTopic = None\<rparr>
      else if rx_test hybrid_pattern query
      then \<lparr>c_type = HYBRID, c_requiresData = True,
            c_conceptualTopic = Some ''ocean patterns and trends''\<rparr>
      else \<lparr>c_type = KNOWLEDGE_DRIVEN, c_requiresData = False,
            c_conceptualTopic = Some ''ocean science''\<rparr>)"

subsection \<open>Values read from the profile-data API\<close>

text \<open>
  A JavaScript number is a finite value, an infinity or \<open>NaN\<close>; the finite ones are taken
  as reals, which leaves out the rounding of doubles. A value parsed from the response
  body is a JSON value; \<open>JUndefined\<close> is what reading an absent property gives.
\<close>

datatype jsnum = Num real | PosInf | NegInf | NaN

datatype jsval =
    JUndefined
  | JNull
  | JBool bool
  | JNumber jsnum
  | JString string
  | JArray "jsval list"
  | JObject "(string \<times> jsval) list"

text \<open>\<open>ToBoolean\<close>: what \<open>&&\<close> and \<open>||\<close> test.\<close>

fun truthy :: "jsval \<Rightarrow> bool" where
  "truthy JUndefined = False"
| "truthy JNull = False"
| "truthy (JBool b) = b"
| "truthy (JNumber n) = (n \<noteq> Num 0 \<and> n \<noteq> NaN)"
| "truthy (JString s) = (s \<noteq> [])"
| "truthy (JArray xs) = True"
| "truthy (JObject kvs) = True"

text \<open>
  \<open>ToNumber\<close>, which \<open>isNaN\<close> and a comparison with a number apply to their operand. On a
  string, an array or an object it is the language's conversion of the text, taken as
  the parameter \<open>conv\<close>.
\<close>

fun to_number :: "(jsval \<Rightarrow> jsnum) \<Rightarrow> jsval \<Rightarrow> jsnum" where
  "to_number conv JUndefined = NaN"
| "to_number conv JNull = Num 0"
| "to_number conv (JBool b) = Num (if b then 1 else 0)"
| "to_number conv (JNumber n) = n"
| "to_number conv (JString s) = conv (JString s)"
| "to_number conv (JArray xs) = conv (JArray xs)"
| "to_number conv (JObject kvs) = conv (JObject kvs)"

fun num_ge :: "jsnum \<Rightarrow> real \<Rightarrow> bool" where
  "num_ge (Num x) y = (x \<ge> y)"
| "num_ge PosInf y = True"
| "num_ge NegInf y = False"
| "num_ge NaN y = False"

fun num_le :: "jsnum \<Rightarrow> real \<Rightarrow> bool" where
  "num_le (Num x) y = (x \<le> y)"
| "num_le PosInf y = False"
| "num_le NegInf y = True"
| "num_le NaN y = False"

definition js_isNaN :: "(jsval \<Rightarrow> jsnum) \<Rightarrow> jsval \<Rightarrow> bool" where
  "js_isNaN conv v = (to_number conv v = NaN)"

definition js_ge :: "(jsval \<Rightarrow> jsnum) \<Rightarrow> jsval \<Rightarrow> real \<Rightarrow> bool" where
  "js_ge conv v y = num_ge (to_number conv v) y"

definition js_le :: "(jsval \<Rightarrow> jsnum) \<Rightarrow> jsval \<Rightarrow> real \<Rightarrow> bool" where
  "js_le conv v y = num_le (to_number conv v) y"

definition nullish :: "jsval \<Rightarrow> bool" where
  "nullish v = (v = JUndefined \<or> v = JNull)"

text \<open>
  \<open>v.k\<close> for a value that is neither \<open>undefined\<close> nor \<open>null\<close>, and a key among those the code
  reads (\<open>_id\<close>, \<open>lat\<close>, \<open>lon\<close>, \<open>date\<close>, \<open>measurements\<close>, \<open>pres\<close>, \<open>temp\<close>, \<open>psal\<close>): an object's own
  property, the last one of that name; nothing on any other value.
\<close>

fun js_prop :: "jsval \<Rightarrow> string \<Rightarrow> jsval" where
  "js_prop (JObject kvs) k = (case map_of (rev kvs) k of None \<Rightarrow> JUndefined | Some v \<Rightarrow> v)"
| "js_prop v k = JUndefined"

text \<open>\<open>v[0]\<close> for a value that is neither \<open>undefined\<close> nor \<open>null\<close>.\<close>

fun index0 :: "jsval \<Rightarrow> jsval" where
  "index0 (JArray []) = JUndefined"
| "index0 (JArray (x # xs)) = x"
| "index0 (JObject kvs) = js_prop (JObject kvs) ''0''"
| "index0 (JString []) = JUndefined"
| "index0 (JString (c # cs)) = JString [c]"
| "index0 v = JUndefined"

text \<open>\<^verbatim>\<open>profile.measurements?.[0]?.k\<close>\<close>

definition measurement0 :: "jsval \<Rightarrow> string \<Rightarrow> jsval" where
  "measurement0 profile k =
     (let m = js_prop profile ''measurements'' in
      if nullish m then JUndefined
      else let m0 = index0 m in
           if nullish m0 then JUndefined else js_prop m0 k)"

subsection \<open>Intent, data result and visualisation types\<close>

record Bounds =
  north :: real
  south :: real
  east :: real
  west :: real

record Region =
  bounds :: Bounds
  r_name :: "string option"

record TimeRange =
  tr_start :: string
  tr_end :: string
  explicit :: bool
  defaulted :: bool

record IntentResult =
  queryType :: QueryType
  mode :: UserMode
  requiresData :: bool
  conceptualTopic :: "string option"
  region :: "Region option"
  timeRange :: "TimeRange option"
  parameters :: "string list"
  confidence :: real

text \<open>
  A profile record. The retriever copies fields of the API's objects into it unchecked,
  so a field holds whatever value the response had there.
\<close>

record Profile =
  prof_id :: jsval
  lat :: jsval
  lon :: jsval
  depth :: jsval
  temperature :: jsval
  salinity :: jsval
  pressure :: jsval
  date :: jsval

record DateRange =
  dr_start :: string
  dr_end :: string

record Metadata =
  totalProfiles :: nat
  dateRange :: DateRange
  md_region :: string
  source :: string

record DataResult =
  profiles :: "Profile list"
  metadata :: Metadata
  isEmpty :: bool

datatype VizType = VMap | VChart | VPlot3d | VHeatmap

record PipelineConfig =
  argovisApiKey :: string
  argovisBaseUrl :: string
  enableFailureExpansion :: bool
  timeoutMs :: nat

subsection \<open>The host: network, clock, random numbers and library functions\<close>

record Request =
  rq_url :: string
  rq_startDate :: string
  rq_endDate :: string
  rq_polygon :: "(real \<times> real) list"
  rq_argokey :: string
  rq_timeoutMs :: nat

record Response =
  resp_ok :: bool
  resp_status :: nat
  resp_statusText :: string
  resp_text :: "js_exn + string"
  resp_json :: "js_exn + jsval"

text \<open>
  What the orchestrator asks of its surroundings, over a world \<open>'w\<close>: \<open>fetch\<close> with the abort
  timer armed (a timeout rejects with an \<open>Error\<close> named \<open>AbortError\<close>), \<open>Date.now()\<close>,
  \<open>Math.random()\<close>; and of the language's library: the time value of \<open>new Date(s)\<close> (\<open>None\<close>
  for an invalid date), \<open>toISOString\<close> of a valid time value, \<open>setMonth(getMonth() + n)\<close> on
  a valid time value (\<open>None\<close> when it leaves the range of dates), the text of a number in
  a template literal, \<open>ToNumber\<close> on strings and objects, and whether \<open>new URL\<close> accepts a
  string.
\<close>

record 'w host =
  fetch :: "Request \<Rightarrow> 'w \<Rightarrow> (js_exn + Response) \<times> 'w"
  date_now :: "'w \<Rightarrow> int"
  math_random :: "'w \<Rightarrow> real \<times> 'w"
  date_parse :: "string \<Rightarrow> int option"
  to_iso :: "int \<Rightarrow> string"
  add_months :: "int \<Rightarrow> int \<Rightarrow> int option"
  number_text :: "real \<Rightarrow> string"
  coerce_number :: "jsval \<Rightarrow> jsnum"
  url_valid :: "string \<Rightarrow> bool"

subsection \<open>Library helpers\<close>

text \<open>\<^verbatim>\<open>s.split('T')[0]\<close>\<close>

definition before_T :: "string \<Rightarrow> string" where
  "before_T s = takeWhile (\<lambda>c. c \<noteq> CHR ''T'') s"

text \<open>\<open>new Date(v)\<close> for a number \<open>v\<close>: the time value is \<open>v\<close> cut to an integer, and the date is
  invalid past 8.64e15 milliseconds on either side of the epoch.\<close>

definition time_clip :: "real \<Rightarrow> int option" where
  "time_clip v =
     (if \<bar>v\<bar> \<le> 8640000000000000 then Some (if v \<ge> 0 then \<lfloor>v\<rfloor> else \<lceil>v\<rceil>) else None)"

text \<open>\<open>Number(x.toFixed(d))\<close>: \<open>x\<close> rounded to \<open>d\<close> decimals, halves away from zero. The
  rounding is that of the exact real; the code rounds the double nearest to it, which
  can differ in the last digit.\<close>

definition to_fixed :: "nat \<Rightarrow> real \<Rightarrow> real" where
  "to_fixed d x =
     (if x < 0 then - (real_of_int \<lfloor>(- x) * 10 ^ d + 1 / 2\<rfloor> / 10 ^ d)
      else real_of_int \<lfloor>x * 10 ^ d + 1 / 2\<rfloor> / 10 ^ d)"

text \<open>The decimal text of a loop index in a template literal.\<close>

fun show_nat :: "nat \<Rightarrow> string" where
  "show_nat n =
     (if n < 10 then [char_of (48 + n)]
      else show_nat (n div 10) @ [char_of (48 + n mod 10)])"

text \<open>\<^verbatim>\<open>name || dflt\<close> for an optional string.\<close>

definition name_or :: "string option \<Rightarrow> string \<Rightarrow> string" where
  "name_or n dflt = (case n of None \<Rightarrow> dflt | Some s \<Rightarrow> if s \<noteq> [] then s else dflt)"

subsection \<open>The failure handler\<close>



text \<open>The date of a synthetic profile: a random point between the two ends of the time
  range, \<open>None\<close> when the resulting date is invalid.\<close>

definition random_date :: "'w host \<Rightarrow> string \<Rightarrow> string \<Rightarrow> real \<Rightarrow> int option" where
  "random_date host s e r =
     (case date_parse host s of
        None \<Rightarrow> None
      | Some t0 \<Rightarrow>
          (case date_parse host e of
             None \<Rightarrow> None
           | Some t1 \<Rightarrow> time_clip (real_of_int t0 + r * (real_of_int t1 - real_of_int t0))))"

text \<open>
  The body of the loop that both generators share but for the prefix of the id and the
  greatest depth: five random draws, then the two dates of the time range (a
  \<open>TypeError\<close> when the time range is \<open>undefined\<close>), a sixth draw, and the record.
\<close>

definition fallback_profile ::
  "'w host \<Rightarrow> string \<Rightarrow> real \<Rightarrow> Bounds \<Rightarrow> TimeRange option \<Rightarrow> nat \<Rightarrow> 'w
    \<Rightarrow> (js_exn + Profile) \<times> 'w" where
  "fallback_profile host prefix maxDepth b tr i w =
     (case math_random host w of (r1, w1) \<Rightarrow>
      case math_random host w1 of (r2, w2) \<Rightarrow>
      case math_random host w2 of (r3, w3) \<Rightarrow>
      case math_random host w3 of (r4, w4) \<Rightarrow>
      case math_random host w4 of (r5, w5) \<Rightarrow>
        (let la = south b + r1 * (north b - south b);
             lo = west b + r2 * (east b - west b);
             de = r3 * maxDepth;
             baseTemp = 25 - (la - 20) * 0.5;
             temp = baseTemp - de / 100 + (r4 - 0.5) * 2;
             baseSalinity = 35 + (r5 - 0.5) * 2;
             sal = baseSalinity + de / 1000 * 0.5;
             pres = de * 0.1
         in case tr of
              None \<Rightarrow>
                (Inl (JsError ''TypeError'' ''Cannot read properties of undefined''), w5)
            | Some t \<Rightarrow>
                (case math_random host w5 of (r6, w6) \<Rightarrow>
                   (case random_date host (tr_start t) (tr_end t) r6 of
                      None \<Rightarrow> (Inl (JsError ''RangeError'' ''Invalid time value''), w6)
                    | Some d \<Rightarrow>
                        (Inr \<lparr>prof_id = JString (prefix @ show_nat i),
                              lat = JNumber (Num (to_fixed 4 la)),
                              lon = JNumber (Num (to_fixed 4 lo)),
                              depth = JNumber (Num (to_fixed 1 de)),
                              temperature = JNumber (Num (to_fixed 2 temp)),
                              salinity = JNumber (Num (to_fixed 2 sal)),
                              pressure = JNumber (Num (to_fixed 1 pres)),
                              date = JString (to_iso host d)\<rparr>, w6)))))"

text \<open>\<^verbatim>\<open>for (let i = 0; i < numPoints; i++) { ...; profiles.push(...) }\<close>\<close>

function fallback_loop ::
  "(nat \<Rightarrow> 'w \<Rightarrow> (js_exn + Profile) \<times> 'w) \<Rightarrow> nat \<Rightarrow> nat \<Rightarrow> Profile list \<Rightarrow> 'w
    \<Rightarrow> (js_exn + Profile list) \<times> 'w" where
  "fallback_loop body numPoints i acc w =
     (if i < numPoints
      then (case body i w of
              (Inl e, w') \<Rightarrow> (Inl e, w')
            | (Inr p, w') \<Rightarrow> fallback_loop body numPoints (Suc i) (acc @ [p]) w')
      else (Inr acc, w))"
  by pat_completeness auto
termination
  by (relation "measure (\<lambda>(body, numPoints, i, acc, w). numPoints - i)") auto

declare fallback_loop.simps [simp del]


text \<open>
  \<open>generateFallbackDataForRegion(region: any, timeRange: any)\<close>. It reads \<open>region.name\<close>
  first and \<open>timeRange.start\<close> in the loop, with no default for either. After thirty rounds
  of the loop the time range is known to be defined; the last \<open>None\<close> branch is not
  reached.
\<close>

definition generateFallbackDataForRegion ::
  "'w host \<Rightarrow> Region option \<Rightarrow> TimeRange option \<Rightarrow> 'w \<Rightarrow> (js_exn + DataResult) \<times> 'w" where
  "generateFallbackDataForRegion host reg tr w =
     (case reg of
        None \<Rightarrow> (Inl (JsError ''TypeError'' ''Cannot read properties of undefined''), w)
      | Some r \<Rightarrow>
          (let numPoints = 30 in
           case fallback_loop (fallback_profile host ''timeout_fallback_'' 1500 (bounds r) tr)
                  numPoints 0 [] w of
             (Inl e, w') \<Rightarrow> (Inl e, w')
           | (Inr ps, w') \<Rightarrow>
               (case tr of
                  None \<Rightarrow>
                    (Inl (JsError ''TypeError'' ''Cannot read properties of undefined''), w')
                | Some t \<Rightarrow>
                    (Inr \<lparr>profiles = ps,
                          metadata =
                            \<lparr>totalProfiles = length ps,
                             dateRange = \<lparr>dr_start = tr_start t, dr_end = tr_end t\<rparr>,
                             md_region = name_or (r_name r) ''Unknown'',
                             source = ''Fallback (API timeout)''\<rparr>,
                          isEmpty = False\<rparr>, w'))))"


subsection \<open>The data retriever\<close>

text \<open>
  The callback of \<open>profiles.map\<close>. Reading a property of \<open>null\<close> throws; \<open>depth\<close> is the first
  measurement's pressure, or 0 when that is absent, \<open>null\<close>, zero or otherwise falsy.
\<close>

definition transformProfile :: "jsval \<Rightarrow> js_exn + Profile" where
  "transformProfile profile =
     (if nullish profile
      then Inl (JsError ''TypeError'' ''Cannot read properties of null'')
      else Inr \<lparr>prof_id = js_prop profile ''_id'',
                lat = js_prop profile ''lat'',
                lon = js_prop profile ''lon'',
                depth = (if truthy (measurement0 profile ''pres'')
                         then measurement0 profile ''pres'' else JNumber (Num 0)),
                temperature = measurement0 profile ''temp'',
                salinity = measurement0 profile ''psal'',
                pressure = measurement0 profile ''pres'',
                date = js_prop profile ''date''\<rparr>)"

fun transform_all :: "jsval list \<Rightarrow> js_exn + Profile list" where
  "transform_all [] = Inr []"
| "transform_all (x # xs) =
     (case transformProfile x of
        Inl e \<Rightarrow> Inl e
      | Inr p \<Rightarrow> (case transform_all xs of Inl e \<Rightarrow> Inl e | Inr ps \<Rightarrow> Inr (p # ps)))"

text \<open>The callback of \<open>filter\<close>, conjunct by conjunct.\<close>

definition valid_profile :: "(jsval \<Rightarrow> jsnum) \<Rightarrow> Profile \<Rightarrow> bool" where
  "valid_profile conv profile =
     (truthy (lat profile) \<and> truthy (lon profile) \<and> depth profile \<noteq> JUndefined \<and>
      \<not> js_isNaN conv (lat profile) \<and> \<not> js_isNaN conv (lon profile) \<and>
      \<not> js_isNaN conv (depth profile) \<and>
      js_ge conv (lat profile) (- 90) \<and> js_le conv (lat profile) 90 \<and>
      js_ge conv (lon profile) (- 180) \<and> js_le conv (lon profile) 180 \<and>
      js_ge conv (depth profile) 0)"

text \<open>\<^verbatim>\<open>profiles.map(...)\<close> on the parsed body: only an array has \<open>map\<close>.\<close>

fun map_profiles :: "jsval \<Rightarrow> js_exn + Profile list" where
  "map_profiles (JArray xs) = transform_all xs"
| "map_profiles v = Inl (JsError ''TypeError'' ''profiles.map is not a function'')"

text \<open>The \<open>try\<close> block of \<open>retrieveData\<close>.\<close>

definition fetch_profiles ::
  "'w host \<Rightarrow> Request \<Rightarrow> DateRange \<Rightarrow> Region \<Rightarrow> 'w \<Rightarrow> (js_exn + DataResult) \<times> 'w" where
  "fetch_profiles host req effectiveTimeRange effectiveRegion w =
     (case fetch host req w of
        (Inl e, w1) \<Rightarrow> (Inl e, w1)
      | (Inr response, w1) \<Rightarrow>
          if \<not> resp_ok response
          then (case resp_text response of
                  Inl e \<Rightarrow> (Inl e, w1)
                | Inr errorText \<Rightarrow>
                    (Inl (JsError ''Error''
                       (''Argovis API error: '' @ show_nat (resp_status response) @ '' '' @
                        resp_statusText response)), w1))
          else (case resp_json response of
                  Inl e \<Rightarrow> (Inl e, w1)
                | Inr body \<Rightarrow>
                    (case map_profiles body of
                       Inl e \<Rightarrow> (Inl e, w1)
                     | Inr transformed \<Rightarrow>
                         (let transformedProfiles =
                                filter (valid_profile (coerce_number host)) transformed
                          in (Inr \<lparr>profiles = transformedProfiles,
                                    metadata =
                                      \<lparr>totalProfiles = length transformedProfiles,
                                       dateRange = effectiveTimeRange,
                                       md_region =
                                         name_or (r_name effectiveRegion)
                                           (number_text host (north (bounds effectiveRegion)) @
                                            [CHR 0xB0] @ ''N, '' @
                                            number_text host (west (bounds effectiveRegion)) @
                                            [CHR 0xB0] @ ''W''),
                                       source = ''Argovis''\<rparr>,
                                    isEmpty = (length transformedProfiles = 0)\<rparr>, w1)))))"

text \<open>
  \<open>retrieveData\<close>: the early return for an intent with neither region nor time range, the
  request built from the intent or the defaults, the \<open>try\<close> block, and the \<open>catch\<close> block,
  which on a timeout calls the failure handler with the intent's own \<open>region\<close> and
  \<open>timeRange\<close> and otherwise returns an empty result.
\<close>

definition retrieveData ::
  "'w host \<Rightarrow> PipelineConfig \<Rightarrow> IntentResult \<Rightarrow> 'w \<Rightarrow> (js_exn + DataResult) \<times> 'w" where
  "retrieveData host config intent w =
     (if region intent = None \<and> timeRange intent = None
      then (Inr \<lparr>profiles = [],
                 metadata = \<lparr>totalProfiles = 0,
                             dateRange = \<lparr>dr_start = [], dr_end = []\<rparr>,
                             md_region = ''none'',
                             source = ''skipped''\<rparr>,
                 isEmpty = True\<rparr>, w)
      else
        (let defaultTimeRange =
               \<lparr>dr_start = before_T (to_iso host
                             (date_now host w - 365 * 24 * 60 * 60 * 1000)),
                dr_end = before_T (to_iso host (date_now host w))\<rparr>;
             effectiveTimeRange =
               (case timeRange intent of
                  Some t \<Rightarrow> \<lparr>dr_start = tr_start t, dr_end = tr_end t\<rparr>
                | None \<Rightarrow> defaultTimeRange);
             startDate =
               (if str_includes (dr_start effectiveTimeRange) ''T''
                then dr_start effectiveTimeRange
                else dr_start effectiveTimeRange @ ''T00:00:00.000Z'');
             endDate =
               (if str_includes (dr_end effectiveTimeRange) ''T''
                then dr_end effectiveTimeRange
                else dr_end effectiveTimeRange @ ''T23:59:59.999Z'');
             url = argovisBaseUrl config @ ''/argo''
         in if \<not> url_valid host url then (Inl (JsError ''TypeError'' ''Invalid URL''), w)
            else
              (let defaultRegion =
                     \<lparr>bounds = \<lparr>north = 90, south = - 90, east = 180, west = - 180\<rparr>,
                      r_name = Some ''Global Ocean''\<rparr>;
                   effectiveRegion =
                     (case region intent of Some r \<Rightarrow> r | None \<Rightarrow> defaultRegion);
                   b = bounds effectiveRegion;
                   polygon = [(west b, south b), (east b, south b), (east b, north b),
                              (west b, north b), (west b, south b)];
                   req = \<lparr>rq_url = url, rq_startDate = startDate, rq_endDate = endDate,
                          rq_polygon = polygon, rq_argokey = argovisApiKey config,
                          rq_timeoutMs = timeoutMs config\<rparr>
               in case fetch_profiles host req effectiveTimeRange effectiveRegion w of
                    (Inr d, w1) \<Rightarrow> (Inr d, w1)
                  | (Inl error, w1) \<Rightarrow>
                      if exn_name error = Some ''AbortError''
                      then generateFallbackDataForRegion host (region intent)
                             (timeRange intent) w1
                      else (Inr \<lparr>profiles = [],
                                 metadata =
                                   \<lparr>totalProfiles = 0,
                                    dateRange = effectiveTimeRange,
                                    md_region = name_or (r_name effectiveRegion) ''Unknown'',
                                    source = ''Argovis (failed)''\<rparr>,
                                 isEmpty = True\<rparr>, w1))))"

subsection \<open>Choosing the visualisation\<close>

definition determineVisualizationType :: "DataResult \<Rightarrow> IntentResult \<Rightarrow> VizType" where
  "determineVisualizationType data intent =
     (if mode intent = POWER \<and> length (profiles data) > 10 then VPlot3d
      else if list_ex (\<lambda>p. lat p \<noteq> JUndefined \<and> lon p \<noteq> JUndefined) (profiles data)
      then VMap
      else VChart)"

subsection \<open>What the language guarantees of the host\<close>

text \<open>
  \<open>Math.random()\<close> is at least 0 and less than 1; a valid date's time value is within
  8.64e15 milliseconds of the epoch; and the two date-only strings the failure handler
  falls back on are valid dates.
\<close>

definition host_ok :: "'w host \<Rightarrow> bool" where
  "host_ok host =
     ((\<forall>w. 0 \<le> fst (math_random host w) \<and> fst (math_random host w) < 1)
      \<and> (\<forall>s. case date_parse host s of
                None \<Rightarrow> True
              | Some t \<Rightarrow> \<bar>real_of_int t\<bar> \<le> 8640000000000000)
      \<and> date_parse host ''2023-01-01'' \<noteq> None
      \<and> date_parse host ''2023-12-31'' \<noteq> None)"

section \<open>Test doubles for the host\<close>

text \<open>
  A host for concrete runs. Its date functions know the dates the runs below use; every
  random draw is one half; \<open>fetch\<close> is supplied by the run.
\<close>

definition test_date_parse :: "string \<Rightarrow> int option" where
  "test_date_parse s =
     (if s = ''2020-01-01'' then Some 1577836800000
      else if s = ''2020-12-31'' then Some 1609372800000
      else if s = ''2023-01-01'' then Some 1672531200000
      else if s = ''2023-12-31'' then Some 1703980800000
      else None)"

definition test_to_iso :: "int \<Rightarrow> string" where
  "test_to_iso t =
     (if t = 1561939200000 then ''2019-07-01T00:00:00.000Z''
      else if t = 1625097600000 then ''2021-07-01T00:00:00.000Z''
      else ''2023-07-02T00:00:00.000Z'')"

definition test_add_months :: "int \<Rightarrow> int \<Rightarrow> int option" where
  "test_add_months t n =
     (if t = 1577836800000 \<and> n = - 6 then Some 1561939200000
      else if t = 1609372800000 \<and> n = 6 then Some 1625097600000
      else None)"

definition test_host :: "(Request \<Rightarrow> 'w \<Rightarrow> (js_exn + Response) \<times> 'w) \<Rightarrow> 'w host" where
  "test_host f =
     \<lparr>fetch = f,
      date_now = (\<lambda>w. 1700000000000),
      math_random = (\<lambda>w. (1 / 2, w)),
      date_parse = test_date_parse,
      to_iso = test_to_iso,
      add_months = test_add_months,
      number_text = (\<lambda>x. ''0''),
      coerce_number = (\<lambda>v. NaN),
      url_valid = (\<lambda>u. True)\<rparr>"

text \<open>A \<open>fetch\<close> that answers every request the same way and counts the requests made.\<close>

definition fetch_always :: "(js_exn + Response) \<Rightarrow> Request \<Rightarrow> nat \<Rightarrow> (js_exn + Response) \<times> nat" where
  "fetch_always outcome req w = (outcome, Suc w)"

definition ok_response :: "jsval \<Rightarrow> Response" where
  "ok_response body =
     \<lparr>resp_ok = True, resp_status = 200, resp_statusText = ''OK'',
      resp_text = Inr [], resp_json = Inr body\<rparr>"

definition test_config :: PipelineConfig where
  "test_config =
     \<lparr>argovisApiKey = ''key'', argovisBaseUrl = ''https://argovis-api.colorado.edu'',
      enableFailureExpansion = True, timeoutMs = 15000\<rparr>"

definition test_intent :: "Region option \<Rightarrow> TimeRange option \<Rightarrow> UserMode \<Rightarrow> IntentResult" where
  "test_intent r t m =
     \<lparr>queryType = DATA_DRIVEN, mode = m, requiresData = True, conceptualTopic = None,
      region = r, timeRange = t, parameters = [''temperature''], confidence = 1\<rparr>"

definition year_2020 :: TimeRange where
  "year_2020 = \<lparr>tr_start = ''2020-01-01'', tr_end = ''2020-12-31'',
                 explicit = True, defaulted = False\<rparr>"

definition arctic :: Region where
  "arctic = \<lparr>bounds = \<lparr>north = 85, south = 70, east = 20, west = - 20\<rparr>,
             r_name = Some ''Arctic''\<rparr>"

definition sample_profile :: Profile where
  "sample_profile =
     \<lparr>prof_id = JString ''p1'', lat = JNumber (Num 10), lon = JNumber (Num 20),
      depth = JNumber (Num 5), temperature = JNumber (Num 12), salinity = JNumber (Num 35),
      pressure = JNumber (Num 5), date = JString ''2020-03-01''\<rparr>"

definition result_of :: "Profile list \<Rightarrow> DataResult" where
  "result_of ps =
     \<lparr>profiles = ps,
      metadata = \<lparr>totalProfiles = length ps, dateRange = \<lparr>dr_start = [], dr_end = []\<rparr>,
                  md_region = ''test'', source = ''Argovis''\<rparr>,
      isEmpty = (ps = [])\<rparr>"

text \<open>Five records as the API might send them: a good one, one without latitude, one
  with latitude 95, one without measurements, one with a negative pressure.\<close>

definition raw_record :: "string \<Rightarrow> (string \<times> jsval) list \<Rightarrow> jsval" where
  "raw_record i kvs = JObject ((''_id'', JString i) # kvs)"

definition sample_raws :: "jsval list" where
  "sample_raws =
     [raw_record ''good''
        [(''lat'', JNumber (Num 10)), (''lon'', JNumber (Num 20)),
         (''measurements'', JArray [JObject [(''pres'', JNumber (Num 5))]])],
      raw_record ''no latitude''
        [(''lon'', JNumber (Num 20)),
         (''measurements'', JArray [JObject [(''pres'', JNumber (Num 5))]])],
      raw_record ''latitude 95''
        [(''lat'', JNumber (Num 95)), (''lon'', JNumber (Num 20)),
         (''measurements'', JArray [JObject [(''pres'', JNumber (Num 5))]])],
      raw_record ''no measurements''
        [(''lat'', JNumber (Num 10)), (''lon'', JNumber (Num 20))],
      raw_record ''negative pressure''
        [(''lat'', JNumber (Num 10)), (''lon'', JNumber (Num 20)),
         (''measurements'', JArray [JObject [(''pres'', JNumber (Num (- 5)))]])]]"





section \<open>Properties of the provider controller\<close>

lemma try_providers_all_fail:
  "all_fail ps prompt w \<Longrightarrow> fst (try_providers now ps prompt flog w) = Inr UNABLE"
proof (induction ps arbitrary: flog w)
  case Nil
  show ?case by simp
next
  case (Cons p ps)
  obtain r w' where call: "p_generateResponse p prompt w = (r, w')"
    by (cases "p_generateResponse p prompt w")
  show ?case
  proof (cases r)
    case (Inl e)
    with Cons.prems call have "all_fail ps prompt w'" by simp
    from Cons.IH [OF this] call Inl show ?thesis by simp
  next
    case (Inr a)
    with Cons.prems call show ?thesis by simp
  qed
qed

text \<open>
  C1. With an empty provider list, or when every provider of the list rejects, the
  controller's \<open>generateResponse\<close> resolves (it does not reject) with exactly the fixed
  message, whatever the prompt.
\<close>

theorem generateResponse_all_fail:
  assumes "providers ctl = [] \<or> all_fail (providers ctl) prompt w"
  shows "fst (generateResponse now ctl prompt w)
           = Inr ''System currently unable to generate result. Please retry.''"
proof (cases "providers ctl = []")
  case True
  then show ?thesis by (simp add: generateResponse_def UNABLE_def)
next
  case False
  with assms have "all_fail (providers ctl) prompt w" by simp
  then have "fst (try_providers now (providers ctl) prompt (failureLog ctl) w) = Inr UNABLE"
    by (rule try_providers_all_fail)
  with False show ?thesis
    by (cases "try_providers now (providers ctl) prompt (failureLog ctl) w")
       (simp add: generateResponse_def UNABLE_def)
qed

theorem generateResponse_all_fail_witness:
  "all_fail [failing_provider GROQ ''down'', failing_provider HUGGINGFACE ''HTTP 500'']
      ''hello'' (0::nat)
   \<and> fst (generateResponse int
        \<lparr>providers = [failing_provider GROQ ''down'',
                       failing_provider HUGGINGFACE ''HTTP 500''],
         failureLog = []\<rparr> ''hello'' 0)
     = Inr ''System currently unable to generate result. Please retry.''"
proof -
  have h: "all_fail [failing_provider GROQ ''down'',
                     failing_provider HUGGINGFACE ''HTTP 500''] ''hello'' (0::nat)"
    by (simp add: failing_provider_def)
  from generateResponse_all_fail [of "\<lparr>providers = [failing_provider GROQ ''down'',
      failing_provider HUGGINGFACE ''HTTP 500''], failureLog = []\<rparr>" "''hello''" 0 int] h
  show ?thesis by simp
qed

text \<open>
  C7. With providers \<open>[A, B]\<close> (and whatever follows \<open>B\<close> in the list), where \<open>A\<close> rejects
  and \<open>B\<close> resolves with content \<open>c\<close>: the call resolves with \<open>c\<close>, the failure log gains
  exactly one entry, naming \<open>A\<close>, and the world is left as \<open>B\<close>'s call left it, so nothing
  after \<open>B\<close> was invoked.
\<close>

theorem generateResponse_failover:
  assumes "providers ctl = A # B # rest"
    and "p_generateResponse A prompt w = (Inl e, w1)"
    and "p_generateResponse B prompt w1 = (Inr r, w2)"
    and "content r = c"
  shows "generateResponse now ctl prompt w =
           (Inr c,
            ctl\<lparr>failureLog := failureLog ctl @
                  [\<lparr>fe_provider = provider_string (p_name A),
                    fe_error = error_message e,
                    fe_timestamp = now w1\<rparr>]\<rparr>,
            w2)"
  using assms by (simp add: generateResponse_def)

theorem generateResponse_failover_witness:
  "generateResponse int
     \<lparr>providers = [failing_provider GROQ ''down'', answering_provider HUGGINGFACE ''42'',
                    answering_provider GROQ ''never asked''],
      failureLog = []\<rparr> ''hello'' 0 =
   (Inr ''42'',
    \<lparr>providers = [failing_provider GROQ ''down'', answering_provider HUGGINGFACE ''42'',
                   answering_provider GROQ ''never asked''],
     failureLog = [\<lparr>fe_provider = ''groq'', fe_error = ''down'', fe_timestamp = 1\<rparr>]\<rparr>,
    2)"
proof -
  have a: "p_generateResponse (failing_provider GROQ ''down'') ''hello'' 0
             = (Inl (JsError ''Error'' ''down''), 1)"
    by (simp add: failing_provider_def)
  have b: "p_generateResponse (answering_provider HUGGINGFACE ''42'') ''hello'' 1
             = (Inr \<lparr>content = ''42'', usage = None, model = ''m'',
                     provider = ''huggingface''\<rparr>, 2)"
    by (simp add: answering_provider_def numeral_2_eq_2)
  from generateResponse_failover [where now = int and rest = "[answering_provider GROQ ''never asked'']"
      and ctl = "\<lparr>providers = [failing_provider GROQ ''down'', answering_provider HUGGINGFACE ''42'',
                    answering_provider GROQ ''never asked''], failureLog = []\<rparr>",
      OF _ a b]
  show ?thesis by (simp add: failing_provider_def)
qed

lemma try_providers_appends:
  "\<exists>new. fst (snd (try_providers now ps prompt flog w)) = flog @ new"
proof (induction ps arbitrary: flog w)
  case Nil
  show ?case by simp
next
  case (Cons p ps)
  obtain r w' where call: "p_generateResponse p prompt w = (r, w')"
    by (cases "p_generateResponse p prompt w")
  show ?case
  proof (cases r)
    case (Inl e)
    from Cons.IH [of "flog @ [\<lparr>fe_provider = provider_string (p_name p),
        fe_error = error_message e, fe_timestamp = now w'\<rparr>]" w'] call Inl
    show ?thesis by auto
  next
    case (Inr a)
    with call show ?thesis by simp
  qed
qed

lemma generateResponse_appends:
  "\<exists>new. failureLog (fst (snd (generateResponse now ctl prompt w))) = failureLog ctl @ new"
proof (cases "providers ctl = []")
  case True
  then show ?thesis by (simp add: generateResponse_def)
next
  case False
  obtain r l w' where t: "try_providers now (providers ctl) prompt (failureLog ctl) w = (r, l, w')"
    by (cases "try_providers now (providers ctl) prompt (failureLog ctl) w") auto
  from try_providers_appends [of now "providers ctl" prompt "failureLog ctl" w] t
  obtain new where "l = failureLog ctl @ new" by auto
  with False t show ?thesis by (simp add: generateResponse_def)
qed

lemma generate_all_appends:
  "\<exists>new. failureLog (fst (generate_all now qs ctl w)) = failureLog ctl @ new"
proof (induction qs arbitrary: ctl w)
  case Nil
  show ?case by simp
next
  case (Cons q qs)
  obtain r ctl' w' where g: "generateResponse now ctl q w = (r, ctl', w')"
    by (cases "generateResponse now ctl q w") auto
  from generateResponse_appends [of now ctl q w] g
  obtain n1 where n1: "failureLog ctl' = failureLog ctl @ n1" by auto
  from Cons.IH [of ctl' w']
  obtain n2 where "failureLog (fst (generate_all now qs ctl' w')) = failureLog ctl' @ n2" by auto
  with n1 g show ?case by simp
qed

text \<open>
  C6 as stated fails: the controller only ever pushes onto its failure log. One rejecting
  provider and eleven calls leave eleven entries in the log.
\<close>

theorem failureLog_unbounded_counterexample:
  "\<not> length (failureLog (fst (generate_all int
        [''q1'', ''q2'', ''q3'', ''q4'', ''q5'', ''q6'', ''q7'', ''q8'', ''q9'', ''q10'', ''q11'']
        \<lparr>providers = [failing_provider GROQ ''down''], failureLog = []\<rparr> 0))) \<le> 10"
  by (simp add: generateResponse_def failing_provider_def)

text \<open>
  C6, amended. After any sequence of \<open>generateResponse\<close> calls, the \<open>recentFailures\<close> that
  \<open>getSystemHealth\<close> reports are the last ten entries of the failure log (all of them when
  there are fewer), so at most ten; the log itself keeps every entry it had and only
  grows.
\<close>

theorem recentFailures_bounded:
  "length (recentFailures (getSystemHealth now (fst (generate_all now qs ctl w)) w')) \<le> 10
   \<and> recentFailures (getSystemHealth now (fst (generate_all now qs ctl w)) w')
       = drop (length (failureLog (fst (generate_all now qs ctl w))) - 10)
           (failureLog (fst (generate_all now qs ctl w)))
   \<and> (\<exists>new. failureLog (fst (generate_all now qs ctl w)) = failureLog ctl @ new)"
  using generate_all_appends [of now qs ctl w]
  by (simp add: getSystemHealth_def slice_last_def)

section \<open>Properties of the response validator\<close>

text \<open>
  C10. With the flag \<open>hasRealData\<close> false, \<open>validateResponse\<close> rejects every response: the
  flag is tested first, the text is never looked at, and the function has no parameter
  by which a caller could waive the test.
\<close>

theorem validateResponse_no_real_data:
  "validateResponse response False = False"
  by (simp add: validateResponse_def)

section \<open>Properties of the orchestrator\<close>

text \<open>
  C8. \<open>determineVisualizationType\<close> returns \<open>plot3d\<close> exactly when the intent's mode is power
  and there are more than 10 profiles; otherwise \<open>map\<close> exactly when some profile has both
  \<open>lat\<close> and \<open>lon\<close> defined; otherwise \<open>chart\<close>. So power mode with 15 profiles gives
  \<open>plot3d\<close>, and explorer mode with a profile that has \<open>lat\<close> and \<open>lon\<close> gives \<open>map\<close>. This
  holds of every data result, the non-empty ones among them.
\<close>

theorem determineVisualizationType_selection:
  "((determineVisualizationType data intent = VPlot3d)
      = (mode intent = POWER \<and> 10 < length (profiles data)))
   \<and> ((determineVisualizationType data intent = VMap)
      = (\<not> (mode intent = POWER \<and> 10 < length (profiles data))
         \<and> (\<exists>p \<in> set (profiles data). lat p \<noteq> JUndefined \<and> lon p \<noteq> JUndefined)))
   \<and> ((determineVisualizationType data intent = VChart)
      = (\<not> (mode intent = POWER \<and> 10 < length (profiles data))
         \<and> \<not> (\<exists>p \<in> set (profiles data). lat p \<noteq> JUndefined \<and> lon p \<noteq> JUndefined)))
   \<and> (mode intent = POWER \<and> length (profiles data) = 15
        \<longrightarrow> determineVisualizationType data intent = VPlot3d)
   \<and> (mode intent = EXPLORER
        \<and> (\<exists>p \<in> set (profiles data). lat p \<noteq> JUndefined \<and> lon p \<noteq> JUndefined)
        \<longrightarrow> determineVisualizationType data intent = VMap)"
  by (auto simp add: determineVisualizationType_def list_ex_iff)

theorem determineVisualizationType_selection_witness:
  "mode (test_intent None None POWER) = POWER
   \<and> length (profiles (result_of (replicate 15 sample_profile))) = 15
   \<and> determineVisualizationType (result_of (replicate 15 sample_profile))
        (test_intent None None POWER) = VPlot3d
   \<and> mode (test_intent None None EXPLORER) = EXPLORER
   \<and> (\<exists>p \<in> set (profiles (result_of [sample_profile, sample_profile])).
          lat p \<noteq> JUndefined \<and> lon p \<noteq> JUndefined)
   \<and> determineVisualizationType (result_of [sample_profile, sample_profile])
        (test_intent None None EXPLORER) = VMap"
proof -
  have p: "mode (test_intent None None POWER) = POWER
           \<and> length (profiles (result_of (replicate 15 sample_profile))) = 15"
    by (simp add: test_intent_def result_of_def)
  have e: "mode (test_intent None None EXPLORER) = EXPLORER
           \<and> (\<exists>p \<in> set (profiles (result_of [sample_profile, sample_profile])).
                  lat p \<noteq> JUndefined \<and> lon p \<noteq> JUndefined)"
    by (simp add: test_intent_def result_of_def sample_profile_def)
  from p e
    determineVisualizationType_selection
      [of "result_of (replicate 15 sample_profile)" "test_intent None None POWER"]
    determineVisualizationType_selection
      [of "result_of [sample_profile, sample_profile]" "test_intent None None EXPLORER"]
  show ?thesis by blast
qed

text \<open>
  C3. For an intent with neither region nor time range, \<open>retrieveData\<close> returns the empty
  result tagged \<open>skipped\<close> and leaves the world as it found it: whatever the host's \<open>fetch\<close>
  would do, it is not called.
\<close>

theorem retrieveData_skips:
  assumes "region intent = None" and "timeRange intent = None"
  shows "retrieveData host config intent w =
           (Inr \<lparr>profiles = [],
                 metadata = \<lparr>totalProfiles = 0,
                             dateRange = \<lparr>dr_start = '''', dr_end = ''''\<rparr>,
                             md_region = ''none'',
                             source = ''skipped''\<rparr>,
                 isEmpty = True\<rparr>, w)"
  using assms by (simp add: retrieveData_def)

theorem retrieveData_skips_witness:
  "region (test_intent None None EXPLORER) = None
   \<and> timeRange (test_intent None None EXPLORER) = None
   \<and> retrieveData (test_host (fetch_always (Inr (ok_response (JArray [])))))
        test_config (test_intent None None EXPLORER) (0::nat) =
      (Inr \<lparr>profiles = [],
            metadata = \<lparr>totalProfiles = 0,
                        dateRange = \<lparr>dr_start = '''', dr_end = ''''\<rparr>,
                        md_region = ''none'',
                        source = ''skipped''\<rparr>,
            isEmpty = True\<rparr>, 0)"
proof -
  have h: "region (test_intent None None EXPLORER) = None
           \<and> timeRange (test_intent None None EXPLORER) = None"
    by (simp add: test_intent_def)
  from h retrieveData_skips
    [of "test_intent None None EXPLORER"
        "test_host (fetch_always (Inr (ok_response (JArray []))))" test_config "0::nat"]
  show ?thesis by simp
qed

lemma valid_profile_ranges:
  assumes "valid_profile conv p"
  shows "(\<exists>la. to_number conv (lat p) = Num la \<and> - 90 \<le> la \<and> la \<le> 90)
         \<and> (\<exists>lo. to_number conv (lon p) = Num lo \<and> - 180 \<le> lo \<and> lo \<le> 180)
         \<and> num_ge (to_number conv (depth p)) 0"
proof -
  from assms have la: "num_ge (to_number conv (lat p)) (- 90)" "num_le (to_number conv (lat p)) 90"
    and lo: "num_ge (to_number conv (lon p)) (- 180)" "num_le (to_number conv (lon p)) 180"
    and de: "num_ge (to_number conv (depth p)) 0"
    by (simp_all add: valid_profile_def js_ge_def js_le_def)
  from la have "\<exists>x. to_number conv (lat p) = Num x \<and> - 90 \<le> x \<and> x \<le> 90"
    by (cases "to_number conv (lat p)") simp_all
  moreover from lo have "\<exists>x. to_number conv (lon p) = Num x \<and> - 180 \<le> x \<and> x \<le> 180"
    by (cases "to_number conv (lon p)") simp_all
  ultimately show ?thesis using de by simp
qed

lemma invalid_profile_dropped:
  assumes "nullish (lat p) \<or> nullish (lon p)
           \<or> \<not> (num_ge (to_number conv (lat p)) (- 90) \<and> num_le (to_number conv (lat p)) 90)
           \<or> \<not> (num_ge (to_number conv (lon p)) (- 180) \<and> num_le (to_number conv (lon p)) 180)
           \<or> \<not> num_ge (to_number conv (depth p)) 0"
  shows "\<not> valid_profile conv p"
  using assms by (auto simp add: valid_profile_def nullish_def js_ge_def js_le_def)

lemma transformProfile_depth_default:
  assumes "transformProfile r = Inr p" and "\<not> truthy (measurement0 r ''pres'')"
  shows "depth p = JNumber (Num 0)"
  using assms by (auto simp add: transformProfile_def split: if_splits)

lemma retrieveData_unfold:
  assumes "region intent \<noteq> None \<or> timeRange intent \<noteq> None"
    and "url_valid host (argovisBaseUrl config @ ''/argo'')"
  shows "\<exists>req etr ereg. retrieveData host config intent w =
     (case fetch_profiles host req etr ereg w of
        (Inr d, w1) \<Rightarrow> (Inr d, w1)
      | (Inl error, w1) \<Rightarrow>
          if exn_name error = Some ''AbortError''
          then generateFallbackDataForRegion host (region intent) (timeRange intent) w1
          else (Inr \<lparr>profiles = [],
                     metadata = \<lparr>totalProfiles = 0, dateRange = etr,
                                 md_region = name_or (r_name ereg) ''Unknown'',
                                 source = ''Argovis (failed)''\<rparr>,
                     isEmpty = True\<rparr>, w1))"
proof -
  from assms(1) have "\<not> (region intent = None \<and> timeRange intent = None)" by blast
  with assms(2) show ?thesis
    unfolding retrieveData_def Let_def by (simp only: if_False if_True not_True_eq_False not_False_eq_True) blast
qed

lemma retrieveData_success:
  assumes some: "region intent \<noteq> None \<or> timeRange intent \<noteq> None"
    and url: "url_valid host (argovisBaseUrl config @ ''/argo'')"
    and fetch: "\<forall>req. fetch host req w = (Inr response, w1)"
    and ok: "resp_ok response"
    and body: "resp_json response = Inr (JArray raws)"
    and tr: "transform_all raws = Inr ps"
  shows "\<exists>d. retrieveData host config intent w = (Inr d, w1)
           \<and> profiles d = filter (valid_profile (coerce_number host)) ps
           \<and> totalProfiles (metadata d) = length (profiles d)
           \<and> source (metadata d) = ''Argovis''
           \<and> isEmpty d = (profiles d = [])"
proof -
  from retrieveData_unfold [OF some url, of w]
  obtain req etr ereg where r: "retrieveData host config intent w =
     (case fetch_profiles host req etr ereg w of
        (Inr d, w1) \<Rightarrow> (Inr d, w1)
      | (Inl error, w1) \<Rightarrow>
          if exn_name error = Some ''AbortError''
          then generateFallbackDataForRegion host (region intent) (timeRange intent) w1
          else (Inr \<lparr>profiles = [],
                     metadata = \<lparr>totalProfiles = 0, dateRange = etr,
                                 md_region = name_or (r_name ereg) ''Unknown'',
                                 source = ''Argovis (failed)''\<rparr>,
                     isEmpty = True\<rparr>, w1))"
    by blast
  have "\<exists>d. fetch_profiles host req etr ereg w = (Inr d, w1)
           \<and> profiles d = filter (valid_profile (coerce_number host)) ps
           \<and> totalProfiles (metadata d) = length (profiles d)
           \<and> source (metadata d) = ''Argovis''
           \<and> isEmpty d = (profiles d = [])"
    using fetch ok body tr by (simp add: fetch_profiles_def Let_def)
  then obtain d where "fetch_profiles host req etr ereg w = (Inr d, w1)"
    and props: "profiles d = filter (valid_profile (coerce_number host)) ps"
      "totalProfiles (metadata d) = length (profiles d)"
      "source (metadata d) = ''Argovis''"
      "isEmpty d = (profiles d = [])"
    by blast
  with r have "retrieveData host config intent w = (Inr d, w1)" by simp
  with props show ?thesis by blast
qed

lemma valid_profile_iff:
  "valid_profile conv p =
     (truthy (lat p) \<and> truthy (lon p)
      \<and> num_ge (to_number conv (lat p)) (- 90) \<and> num_le (to_number conv (lat p)) 90
      \<and> num_ge (to_number conv (lon p)) (- 180) \<and> num_le (to_number conv (lon p)) 180
      \<and> num_ge (to_number conv (depth p)) 0)"
proof -
  have nan: "\<And>v y. num_ge (to_number conv v) y \<Longrightarrow> to_number conv v \<noteq> NaN"
    by (case_tac "to_number conv v") simp_all
  have undef: "\<And>v y. num_ge (to_number conv v) y \<Longrightarrow> v \<noteq> JUndefined"
    by (case_tac v) simp_all
  show ?thesis
    unfolding valid_profile_def js_isNaN_def js_ge_def js_le_def
    using nan undef by blast
qed

lemma transform_all_Inl:
  "transform_all xs = Inl e \<Longrightarrow> exn_name e = Some ''TypeError''"
  by (induction xs) (auto simp add: transformProfile_def split: if_splits sum.splits)

lemma map_profiles_Inl:
  "map_profiles body = Inl e \<Longrightarrow> exn_name e = Some ''TypeError''"
  by (cases body) (auto dest: transform_all_Inl)

lemma map_profiles_Inr:
  "map_profiles body = Inr ps \<Longrightarrow> \<exists>raws. body = JArray raws \<and> transform_all raws = Inr ps"
  by (cases body) simp_all

lemma transform_all_member:
  "transform_all raws = Inr ps \<Longrightarrow> r \<in> set raws \<Longrightarrow> transformProfile r = Inr p
     \<Longrightarrow> p \<in> set ps"
  by (induction raws arbitrary: ps) (auto split: sum.splits)

lemma transform_all_fields:
  "transform_all raws = Inr ps \<Longrightarrow>
     list_all2 (\<lambda>r p. prof_id p = js_prop r ''_id''
                    \<and> lat p = js_prop r ''lat'' \<and> lon p = js_prop r ''lon''
                    \<and> depth p = (if truthy (measurement0 r ''pres'')
                                  then measurement0 r ''pres'' else JNumber (Num 0)))
       raws ps"
  by (induction raws arbitrary: ps)
     (auto simp add: transformProfile_def split: sum.splits if_splits)

lemma fetch_profiles_failure:
  assumes fetch: "\<forall>req. fetch host req w = (Inr response, w1)"
    and bad: "\<not> (\<exists>raws ps. resp_ok response \<and> resp_json response = Inr (JArray raws)
                  \<and> transform_all raws = Inr ps)"
    and rt: "\<forall>e. resp_text response = Inl e \<longrightarrow> exn_name e \<noteq> Some ''AbortError''"
    and rj: "\<forall>e. resp_json response = Inl e \<longrightarrow> exn_name e \<noteq> Some ''AbortError''"
  shows "\<exists>e. fetch_profiles host req etr ereg w = (Inl e, w1)
           \<and> exn_name e \<noteq> Some ''AbortError''"
proof (cases "resp_ok response")
  case False
  with fetch rt show ?thesis
    by (cases "resp_text response") (simp_all add: fetch_profiles_def)
next
  case True
  note ok = this
  show ?thesis
  proof (cases "resp_json response")
    case (Inl e)
    with fetch rj ok show ?thesis by (simp add: fetch_profiles_def)
  next
    case (Inr body)
    show ?thesis
    proof (cases "map_profiles body")
      case (Inl e)
      from map_profiles_Inl [OF this] have "exn_name e \<noteq> Some ''AbortError''" by simp
      with fetch ok Inr Inl show ?thesis by (simp add: fetch_profiles_def)
    next
      case ps: (Inr ps)
      from map_profiles_Inr [OF this] Inr ok bad show ?thesis by blast
    qed
  qed
qed

lemma retrieveData_failure:
  assumes some: "region intent \<noteq> None \<or> timeRange intent \<noteq> None"
    and url: "url_valid host (argovisBaseUrl config @ ''/argo'')"
    and fetch: "\<forall>req. fetch host req w = (Inr response, w1)"
    and bad: "\<not> (\<exists>raws ps. resp_ok response \<and> resp_json response = Inr (JArray raws)
                  \<and> transform_all raws = Inr ps)"
    and rt: "\<forall>e. resp_text response = Inl e \<longrightarrow> exn_name e \<noteq> Some ''AbortError''"
    and rj: "\<forall>e. resp_json response = Inl e \<longrightarrow> exn_name e \<noteq> Some ''AbortError''"
  shows "\<exists>d. retrieveData host config intent w = (Inr d, w1)
           \<and> profiles d = [] \<and> isEmpty d \<and> totalProfiles (metadata d) = 0
           \<and> source (metadata d) = ''Argovis (failed)''"
proof -
  from retrieveData_unfold [OF some url, of w]
  obtain req etr ereg where r: "retrieveData host config intent w =
     (case fetch_profiles host req etr ereg w of
        (Inr d, w1) \<Rightarrow> (Inr d, w1)
      | (Inl error, w1) \<Rightarrow>
          if exn_name error = Some ''AbortError''
          then generateFallbackDataForRegion host (region intent) (timeRange intent) w1
          else (Inr \<lparr>profiles = [],
                     metadata = \<lparr>totalProfiles = 0, dateRange = etr,
                                 md_region = name_or (r_name ereg) ''Unknown'',
                                 source = ''Argovis (failed)''\<rparr>,
                     isEmpty = True\<rparr>, w1))"
    by blast
  from fetch_profiles_failure [OF fetch bad rt rj, of req etr ereg]
  obtain e where "fetch_profiles host req etr ereg w = (Inl e, w1)"
    and "exn_name e \<noteq> Some ''AbortError''" by blast
  with r show ?thesis by simp
qed

text \<open>
  C4 as stated fails for a record whose depth is missing: the retriever gives such a
  record the depth 0 and keeps it. Here the API answers with one record that has a
  latitude and a longitude and no measurements.
\<close>

theorem missing_depth_kept_counterexample:
  "measurement0 (JObject [(''_id'', JString ''p1''), (''lat'', JNumber (Num 10)),
                          (''lon'', JNumber (Num 20))]) ''pres'' = JUndefined
   \<and> (case fst (retrieveData
          (test_host (fetch_always (Inr (ok_response (JArray
             [JObject [(''_id'', JString ''p1''), (''lat'', JNumber (Num 10)),
                       (''lon'', JNumber (Num 20))]])))))
          test_config (test_intent (Some arctic) (Some year_2020) EXPLORER) (0::nat)) of
         Inl e \<Rightarrow> False
       | Inr d \<Rightarrow> map (\<lambda>p. (lat p, lon p, depth p)) (profiles d)
                   = [(JNumber (Num 10), JNumber (Num 20), JNumber (Num 0))]
                 \<and> \<not> isEmpty d)"
  by (simp add: retrieveData_def fetch_profiles_def test_host_def fetch_always_def
      ok_response_def test_config_def test_intent_def arctic_def year_2020_def
      transformProfile_def measurement0_def nullish_def valid_profile_def
      js_isNaN_def js_ge_def js_le_def name_or_def Let_def)

text \<open>
  C4, amended. For every response of the API: when its body is an array of records,
  every record that survives the filter has a latitude that is a number in [-90, 90], a
  longitude that is a number in [-180, 180] and a depth that is at least 0 (numbers as
  JavaScript's comparison reads them); a record whose latitude or longitude is missing
  or out of range, or whose depth is negative, is dropped; a record whose latitude and
  longitude pass the filter's tests and whose depth is at least 0 is kept, and the kept
  records stand in the order of the response; a record with no pressure measurement is
  given the depth 0 and is kept when its latitude and longitude pass; and \<open>isEmpty\<close> is
  true exactly when no record survives. Any other response (an error status, a body
  that is not JSON or not an array, a \<open>null\<close> among the records) leaves no record: the
  result is empty, \<open>isEmpty\<close> is true, and the source is \<open>Argovis (failed)\<close>. Reading the
  body does not reject with an \<open>AbortError\<close>, the abort timer being cleared before.
\<close>

theorem retrieveData_filtering:
  assumes "region intent \<noteq> None \<or> timeRange intent \<noteq> None"
    and "url_valid host (argovisBaseUrl config @ ''/argo'')"
    and "\<forall>req. fetch host req w = (Inr response, w1)"
  shows "(\<forall>raws ps. resp_ok response \<and> resp_json response = Inr (JArray raws)
            \<and> transform_all raws = Inr ps
          \<longrightarrow> (\<exists>d. retrieveData host config intent w = (Inr d, w1)
               \<and> source (metadata d) = ''Argovis''
               \<and> list_all2 (\<lambda>r p. prof_id p = js_prop r ''_id''
                      \<and> lat p = js_prop r ''lat'' \<and> lon p = js_prop r ''lon''
                      \<and> depth p = (if truthy (measurement0 r ''pres'')
                                    then measurement0 r ''pres'' else JNumber (Num 0)))
                    raws ps
               \<and> profiles d = filter (\<lambda>p. p \<in> set (profiles d)) ps
               \<and> (\<forall>p \<in> set (profiles d).
                    (\<exists>la. to_number (coerce_number host) (lat p) = Num la
                          \<and> - 90 \<le> la \<and> la \<le> 90)
                    \<and> (\<exists>lo. to_number (coerce_number host) (lon p) = Num lo
                          \<and> - 180 \<le> lo \<and> lo \<le> 180)
                    \<and> num_ge (to_number (coerce_number host) (depth p)) 0)
               \<and> (\<forall>p \<in> set ps.
                    (nullish (lat p) \<or> nullish (lon p)
                     \<or> \<not> (num_ge (to_number (coerce_number host) (lat p)) (- 90)
                          \<and> num_le (to_number (coerce_number host) (lat p)) 90)
                     \<or> \<not> (num_ge (to_number (coerce_number host) (lon p)) (- 180)
                          \<and> num_le (to_number (coerce_number host) (lon p)) 180)
                     \<or> \<not> num_ge (to_number (coerce_number host) (depth p)) 0)
                    \<longrightarrow> p \<notin> set (profiles d))
               \<and> (\<forall>p \<in> set ps.
                    truthy (lat p) \<and> truthy (lon p)
                    \<and> num_ge (to_number (coerce_number host) (lat p)) (- 90)
                    \<and> num_le (to_number (coerce_number host) (lat p)) 90
                    \<and> num_ge (to_number (coerce_number host) (lon p)) (- 180)
                    \<and> num_le (to_number (coerce_number host) (lon p)) 180
                    \<and> num_ge (to_number (coerce_number host) (depth p)) 0
                    \<longrightarrow> p \<in> set (profiles d))
               \<and> (\<forall>r \<in> set raws. \<forall>p. transformProfile r = Inr p
                      \<and> \<not> truthy (measurement0 r ''pres'')
                    \<longrightarrow> depth p = JNumber (Num 0)
                        \<and> (truthy (lat p) \<and> truthy (lon p)
                           \<and> num_ge (to_number (coerce_number host) (lat p)) (- 90)
                           \<and> num_le (to_number (coerce_number host) (lat p)) 90
                           \<and> num_ge (to_number (coerce_number host) (lon p)) (- 180)
                           \<and> num_le (to_number (coerce_number host) (lon p)) 180
                           \<longrightarrow> p \<in> set (profiles d)))
               \<and> isEmpty d = (profiles d = [])
               \<and> totalProfiles (metadata d) = length (profiles d)))
     \<and> (\<not> (\<exists>raws ps. resp_ok response \<and> resp_json response = Inr (JArray raws)
                \<and> transform_all raws = Inr ps)
         \<and> (\<forall>e. resp_text response = Inl e \<longrightarrow> exn_name e \<noteq> Some ''AbortError'')
         \<and> (\<forall>e. resp_json response = Inl e \<longrightarrow> exn_name e \<noteq> Some ''AbortError'')
         \<longrightarrow> (\<exists>d. retrieveData host config intent w = (Inr d, w1)
               \<and> profiles d = [] \<and> isEmpty d \<and> totalProfiles (metadata d) = 0
               \<and> source (metadata d) = ''Argovis (failed)''))"
proof (intro conjI allI impI)
  fix raws ps
  assume a: "resp_ok response \<and> resp_json response = Inr (JArray raws)
            \<and> transform_all raws = Inr ps"
  then have ok: "resp_ok response" and body: "resp_json response = Inr (JArray raws)"
    and tr: "transform_all raws = Inr ps" by simp_all
  let ?c = "coerce_number host"
  from retrieveData_success [OF assms ok body tr]
  obtain d where d: "retrieveData host config intent w = (Inr d, w1)"
    and ps: "profiles d = filter (valid_profile ?c) ps"
    and src: "source (metadata d) = ''Argovis''"
    and rest: "totalProfiles (metadata d) = length (profiles d)" "isEmpty d = (profiles d = [])"
    by blast
  have mem: "\<And>p. (p \<in> set (profiles d)) = (p \<in> set ps \<and> valid_profile ?c p)"
    using ps by simp
  have flds: "list_all2 (\<lambda>r p. prof_id p = js_prop r ''_id''
                      \<and> lat p = js_prop r ''lat'' \<and> lon p = js_prop r ''lon''
                      \<and> depth p = (if truthy (measurement0 r ''pres'')
                                    then measurement0 r ''pres'' else JNumber (Num 0)))
                    raws ps"
    by (rule transform_all_fields [OF tr])
  have order: "profiles d = filter (\<lambda>p. p \<in> set (profiles d)) ps"
  proof -
    have "filter (\<lambda>p. p \<in> set (profiles d)) ps = filter (valid_profile ?c) ps"
      by (rule filter_cong) (simp_all add: mem)
    with ps show ?thesis by simp
  qed
  have kept_range: "\<forall>p \<in> set (profiles d).
                    (\<exists>la. to_number ?c (lat p) = Num la \<and> - 90 \<le> la \<and> la \<le> 90)
                    \<and> (\<exists>lo. to_number ?c (lon p) = Num lo \<and> - 180 \<le> lo \<and> lo \<le> 180)
                    \<and> num_ge (to_number ?c (depth p)) 0"
    using mem valid_profile_ranges [of ?c] by blast
  have dropped: "\<forall>p \<in> set ps.
                    (nullish (lat p) \<or> nullish (lon p)
                     \<or> \<not> (num_ge (to_number ?c (lat p)) (- 90)
                          \<and> num_le (to_number ?c (lat p)) 90)
                     \<or> \<not> (num_ge (to_number ?c (lon p)) (- 180)
                          \<and> num_le (to_number ?c (lon p)) 180)
                     \<or> \<not> num_ge (to_number ?c (depth p)) 0)
                    \<longrightarrow> p \<notin> set (profiles d)"
    using mem invalid_profile_dropped [of _ ?c] by blast
  have kept: "\<forall>p \<in> set ps.
                    truthy (lat p) \<and> truthy (lon p)
                    \<and> num_ge (to_number ?c (lat p)) (- 90)
                    \<and> num_le (to_number ?c (lat p)) 90
                    \<and> num_ge (to_number ?c (lon p)) (- 180)
                    \<and> num_le (to_number ?c (lon p)) 180
                    \<and> num_ge (to_number ?c (depth p)) 0
                    \<longrightarrow> p \<in> set (profiles d)"
    using mem by (simp add: valid_profile_iff)
  have nodepth: "\<forall>r \<in> set raws. \<forall>p. transformProfile r = Inr p
                      \<and> \<not> truthy (measurement0 r ''pres'')
                    \<longrightarrow> depth p = JNumber (Num 0)
                        \<and> (truthy (lat p) \<and> truthy (lon p)
                           \<and> num_ge (to_number ?c (lat p)) (- 90)
                           \<and> num_le (to_number ?c (lat p)) 90
                           \<and> num_ge (to_number ?c (lon p)) (- 180)
                           \<and> num_le (to_number ?c (lon p)) 180
                           \<longrightarrow> p \<in> set (profiles d))"
  proof (intro ballI allI impI)
    fix r p
    assume r: "r \<in> set raws"
      and tp: "transformProfile r = Inr p \<and> \<not> truthy (measurement0 r ''pres'')"
    from tp have dz: "depth p = JNumber (Num 0)"
      by (auto dest: transformProfile_depth_default)
    from transform_all_member [OF tr r] tp have inps: "p \<in> set ps" by simp
    have "truthy (lat p) \<and> truthy (lon p)
                           \<and> num_ge (to_number ?c (lat p)) (- 90)
                           \<and> num_le (to_number ?c (lat p)) 90
                           \<and> num_ge (to_number ?c (lon p)) (- 180)
                           \<and> num_le (to_number ?c (lon p)) 180
                           \<longrightarrow> p \<in> set (profiles d)"
      using mem inps dz by (simp add: valid_profile_iff)
    with dz show "depth p = JNumber (Num 0)
                        \<and> (truthy (lat p) \<and> truthy (lon p)
                           \<and> num_ge (to_number ?c (lat p)) (- 90)
                           \<and> num_le (to_number ?c (lat p)) 90
                           \<and> num_ge (to_number ?c (lon p)) (- 180)
                           \<and> num_le (to_number ?c (lon p)) 180
                           \<longrightarrow> p \<in> set (profiles d))"
      by (rule conjI)
  qed
  from d src flds order kept_range dropped kept nodepth rest
  show "\<exists>d. retrieveData host config intent w = (Inr d, w1)
               \<and> source (metadata d) = ''Argovis''
               \<and> list_all2 (\<lambda>r p. prof_id p = js_prop r ''_id''
                      \<and> lat p = js_prop r ''lat'' \<and> lon p = js_prop r ''lon''
                      \<and> depth p = (if truthy (measurement0 r ''pres'')
                                    then measurement0 r ''pres'' else JNumber (Num 0)))
                    raws ps
               \<and> profiles d = filter (\<lambda>p. p \<in> set (profiles d)) ps
               \<and> (\<forall>p \<in> set (profiles d).
                    (\<exists>la. to_number (coerce_number host) (lat p) = Num la
                          \<and> - 90 \<le> la \<and> la \<le> 90)
                    \<and> (\<exists>lo. to_number (coerce_number host) (lon p) = Num lo
                          \<and> - 180 \<le> lo \<and> lo \<le> 180)
                    \<and> num_ge (to_number (coerce_number host) (depth p)) 0)
               \<and> (\<forall>p \<in> set ps.
                    (nullish (lat p) \<or> nullish (lon p)
                     \<or> \<not> (num_ge (to_number (coerce_number host) (lat p)) (- 90)
                          \<and> num_le (to_number (coerce_number host) (lat p)) 90)
                     \<or> \<not> (num_ge (to_number (coerce_number host) (lon p)) (- 180)
                          \<and> num_le (to_number (coerce_number host) (lon p)) 180)
                     \<or> \<not> num_ge (to_number (coerce_number host) (depth p)) 0)
                    \<longrightarrow> p \<notin> set (profiles d))
               \<and> (\<forall>p \<in> set ps.
                    truthy (lat p) \<and> truthy (lon p)
                    \<and> num_ge (to_number (coerce_number host) (lat p)) (- 90)
                    \<and> num_le (to_number (coerce_number host) (lat p)) 90
                    \<and> num_ge (to_number (coerce_number host) (lon p)) (- 180)
                    \<and> num_le (to_number (coerce_number host) (lon p)) 180
                    \<and> num_ge (to_number (coerce_number host) (depth p)) 0
                    \<longrightarrow> p \<in> set (profiles d))
               \<and> (\<forall>r \<in> set raws. \<forall>p. transformProfile r = Inr p
                      \<and> \<not> truthy (measurement0 r ''pres'')
                    \<longrightarrow> depth p = JNumber (Num 0)
                        \<and> (truthy (lat p) \<and> truthy (lon p)
                           \<and> num_ge (to_number (coerce_number host) (lat p)) (- 90)
                           \<and> num_le (to_number (coerce_number host) (lat p)) 90
                           \<and> num_ge (to_number (coerce_number host) (lon p)) (- 180)
                           \<and> num_le (to_number (coerce_number host) (lon p)) 180
                           \<longrightarrow> p \<in> set (profiles d)))
               \<and> isEmpty d = (profiles d = [])
               \<and> totalProfiles (metadata d) = length (profiles d)"
    by (intro exI [of _ d] conjI)
next
  assume b: "\<not> (\<exists>raws ps. resp_ok response \<and> resp_json response = Inr (JArray raws)
                \<and> transform_all raws = Inr ps)
         \<and> (\<forall>e. resp_text response = Inl e \<longrightarrow> exn_name e \<noteq> Some ''AbortError'')
         \<and> (\<forall>e. resp_json response = Inl e \<longrightarrow> exn_name e \<noteq> Some ''AbortError'')"
  then have b1: "\<not> (\<exists>raws ps. resp_ok response \<and> resp_json response = Inr (JArray raws)
                \<and> transform_all raws = Inr ps)"
    and b2: "\<forall>e. resp_text response = Inl e \<longrightarrow> exn_name e \<noteq> Some ''AbortError''"
    and b3: "\<forall>e. resp_json response = Inl e \<longrightarrow> exn_name e \<noteq> Some ''AbortError''"
    by blast+
  from retrieveData_failure [OF assms b1 b2 b3]
  show "\<exists>d. retrieveData host config intent w = (Inr d, w1)
               \<and> profiles d = [] \<and> isEmpty d \<and> totalProfiles (metadata d) = 0
               \<and> source (metadata d) = ''Argovis (failed)''" .
qed

theorem retrieveData_filtering_witness:
  "(\<exists>d. retrieveData (test_host (fetch_always (Inr (ok_response (JArray sample_raws)))))
          test_config (test_intent (Some arctic) (Some year_2020) EXPLORER) (0::nat)
        = (Inr d, 1)
      \<and> map (\<lambda>p. (prof_id p, depth p)) (profiles d)
          = [(JString ''good'', JNumber (Num 5)),
             (JString ''no measurements'', JNumber (Num 0))]
      \<and> source (metadata d) = ''Argovis''
      \<and> isEmpty d = (profiles d = [])
      \<and> totalProfiles (metadata d) = length (profiles d))
   \<and> (\<exists>d. retrieveData
          (test_host (fetch_always (Inr (ok_response
             (JObject [(''message'', JString ''Too many requests'')])))))
          test_config (test_intent (Some arctic) (Some year_2020) EXPLORER) (0::nat)
        = (Inr d, 1)
      \<and> profiles d = [] \<and> isEmpty d \<and> totalProfiles (metadata d) = 0
      \<and> source (metadata d) = ''Argovis (failed)'')"
proof (rule conjI)
  let ?host = "test_host (fetch_always (Inr (ok_response (JArray sample_raws))))"
  let ?intent = "test_intent (Some arctic) (Some year_2020) EXPLORER"
  have h1: "region ?intent \<noteq> None \<or> timeRange ?intent \<noteq> None"
    by (simp add: test_intent_def)
  have h2: "url_valid ?host (argovisBaseUrl test_config @ ''/argo'')"
    by (simp add: test_host_def)
  have h3: "\<forall>req. fetch ?host req (0::nat) = (Inr (ok_response (JArray sample_raws)), 1)"
    by (simp add: test_host_def fetch_always_def)
  obtain ps where h6: "transform_all sample_raws = Inr ps"
    by (simp add: sample_raws_def raw_record_def transformProfile_def nullish_def)
  have h456: "resp_ok (ok_response (JArray sample_raws))
      \<and> resp_json (ok_response (JArray sample_raws)) = Inr (JArray sample_raws)
      \<and> transform_all sample_raws = Inr ps"
    using h6 by (simp add: ok_response_def)
  from retrieveData_filtering [OF h1 h2 h3, THEN conjunct1, rule_format, OF h456]
  obtain d where d: "retrieveData ?host test_config ?intent 0 = (Inr d, 1)"
    and e: "source (metadata d) = ''Argovis''" "isEmpty d = (profiles d = [])"
      "totalProfiles (metadata d) = length (profiles d)"
    by blast
  have "map (\<lambda>p. (prof_id p, depth p))
          (profiles (projr (fst (retrieveData ?host test_config ?intent 0))))
        = [(JString ''good'', JNumber (Num 5)), (JString ''no measurements'', JNumber (Num 0))]"
    by (simp add: retrieveData_def fetch_profiles_def test_host_def fetch_always_def
      ok_response_def test_config_def test_intent_def arctic_def year_2020_def
      sample_raws_def raw_record_def
      transformProfile_def measurement0_def nullish_def valid_profile_def
      js_isNaN_def js_ge_def js_le_def name_or_def Let_def)
  with d have "map (\<lambda>p. (prof_id p, depth p)) (profiles d)
        = [(JString ''good'', JNumber (Num 5)), (JString ''no measurements'', JNumber (Num 0))]"
    by simp
  with d e show "\<exists>d. retrieveData ?host test_config ?intent 0 = (Inr d, 1)
      \<and> map (\<lambda>p. (prof_id p, depth p)) (profiles d)
          = [(JString ''good'', JNumber (Num 5)),
             (JString ''no measurements'', JNumber (Num 0))]
      \<and> source (metadata d) = ''Argovis''
      \<and> isEmpty d = (profiles d = [])
      \<and> totalProfiles (metadata d) = length (profiles d)"
    by (intro exI [of _ d]) simp
next
  let ?resp = "ok_response (JObject [(''message'', JString ''Too many requests'')])"
  let ?host = "test_host (fetch_always (Inr ?resp))"
  let ?intent = "test_intent (Some arctic) (Some year_2020) EXPLORER"
  have h1: "region ?intent \<noteq> None \<or> timeRange ?intent \<noteq> None"
    by (simp add: test_intent_def)
  have h2: "url_valid ?host (argovisBaseUrl test_config @ ''/argo'')"
    by (simp add: test_host_def)
  have h3: "\<forall>req. fetch ?host req (0::nat) = (Inr ?resp, 1)"
    by (simp add: test_host_def fetch_always_def)
  have bad: "\<not> (\<exists>raws ps. resp_ok ?resp \<and> resp_json ?resp = Inr (JArray raws)
                \<and> transform_all raws = Inr ps)
         \<and> (\<forall>e. resp_text ?resp = Inl e \<longrightarrow> exn_name e \<noteq> Some ''AbortError'')
         \<and> (\<forall>e. resp_json ?resp = Inl e \<longrightarrow> exn_name e \<noteq> Some ''AbortError'')"
    by (simp add: ok_response_def)
  from retrieveData_filtering [OF h1 h2 h3, THEN conjunct2, rule_format, OF bad]
  show "\<exists>d. retrieveData ?host test_config ?intent 0 = (Inr d, 1)
      \<and> profiles d = [] \<and> isEmpty d \<and> totalProfiles (metadata d) = 0
      \<and> source (metadata d) = ''Argovis (failed)''" .
qed

lemma convex_bound:
  fixes a b r m :: real
  assumes "0 \<le> r" and "r \<le> 1" and "\<bar>a\<bar> \<le> m" and "\<bar>b\<bar> \<le> m"
  shows "\<bar>a + r * (b - a)\<bar> \<le> m"
proof -
  have eq: "a + r * (b - a) = (1 - r) * a + r * b" by (simp add: algebra_simps)
  have "\<bar>(1 - r) * a + r * b\<bar> \<le> \<bar>(1 - r) * a\<bar> + \<bar>r * b\<bar>" by (rule abs_triangle_ineq)
  also have "\<dots> = (1 - r) * \<bar>a\<bar> + r * \<bar>b\<bar>" using assms(1,2) by (simp add: abs_mult)
  also have "\<dots> \<le> (1 - r) * m + r * m"
    using assms by (intro add_mono mult_left_mono) simp_all
  also have "\<dots> = m" by (simp add: algebra_simps)
  finally show ?thesis using eq by simp
qed

lemma random_date_valid:
  assumes ok: "host_ok host"
    and s: "date_parse host s = Some t0" and e: "date_parse host e = Some t1"
    and r: "0 \<le> r" "r < 1"
  shows "\<exists>d. random_date host s e r = Some d"
proof -
  from ok have clip: "\<forall>x. case date_parse host x of None \<Rightarrow> True
      | Some t \<Rightarrow> \<bar>real_of_int t\<bar> \<le> 8640000000000000"
    by (simp add: host_ok_def)
  from clip [rule_format, of s] s have b0: "\<bar>real_of_int t0\<bar> \<le> 8640000000000000" by simp
  from clip [rule_format, of e] e have b1: "\<bar>real_of_int t1\<bar> \<le> 8640000000000000" by simp
  from r have "r \<le> 1" by simp
  from convex_bound [OF r(1) this b0 b1]
  have "\<bar>real_of_int t0 + r * (real_of_int t1 - real_of_int t0)\<bar> \<le> 8640000000000000" .
  with s e show ?thesis by (simp add: random_date_def time_clip_def)
qed

lemma fallback_profile_succeeds:
  assumes ok: "host_ok host"
    and s: "date_parse host (tr_start t) = Some t0" and e: "date_parse host (tr_end t) = Some t1"
  shows "\<exists>p w'. fallback_profile host prefix maxDepth b (Some t) i w = (Inr p, w')"
proof -
  obtain r1 w1 where d1: "math_random host w = (r1, w1)" by (cases "math_random host w")
  obtain r2 w2 where d2: "math_random host w1 = (r2, w2)" by (cases "math_random host w1")
  obtain r3 w3 where d3: "math_random host w2 = (r3, w3)" by (cases "math_random host w2")
  obtain r4 w4 where d4: "math_random host w3 = (r4, w4)" by (cases "math_random host w3")
  obtain r5 w5 where d5: "math_random host w4 = (r5, w5)" by (cases "math_random host w4")
  obtain r6 w6 where d6: "math_random host w5 = (r6, w6)" by (cases "math_random host w5")
  from ok have "0 \<le> fst (math_random host w5) \<and> fst (math_random host w5) < 1"
    by (simp add: host_ok_def)
  with d6 have "0 \<le> r6" "r6 < 1" by simp_all
  from random_date_valid [OF ok s e this]
  obtain d where "random_date host (tr_start t) (tr_end t) r6 = Some d" by blast
  with d1 d2 d3 d4 d5 d6 show ?thesis
    unfolding fallback_profile_def Let_def
    by (simp only: prod.case option.case) (rule exI, rule exI, rule refl)
qed

lemma fallback_loop_succeeds:
  assumes "\<And>i w. \<exists>p w'. body i w = (Inr p, w')"
  shows "\<exists>ps w'. fallback_loop body numPoints i acc w = (Inr ps, w')
           \<and> length ps = length acc + (numPoints - i)"
  using assms
proof (induction body numPoints i acc w rule: fallback_loop.induct)
  case (1 body numPoints i acc w)
  show ?case
  proof (cases "i < numPoints")
    case False
    then show ?thesis by (simp add: fallback_loop.simps [of body numPoints i acc w])
  next
    case True
    from "1.prems" [of i w] obtain p w' where b: "body i w = (Inr p, w')" by blast
    from "1.IH" [OF True b [symmetric] refl "1.prems"]
    obtain ps w'' where
      "fallback_loop body numPoints (Suc i) (acc @ [p]) w' = (Inr ps, w'')"
      "length ps = length (acc @ [p]) + (numPoints - Suc i)"
      by blast
    with True b show ?thesis
      by (simp add: fallback_loop.simps [of body numPoints i acc w])
  qed
qed


text \<open>
  On a timeout the \<open>catch\<close> block of \<open>retrieveData\<close> hands the intent's own \<open>region\<close> to
  \<open>generateFallbackDataForRegion\<close>, not the effective region it has just computed, and
  that function reads \<open>region.name\<close> at once. For every intent with a time range and no
  region the call therefore rejects with a \<open>TypeError\<close>.
\<close>

lemma retrieveData_timeout_no_region:
  assumes "region intent = None" and "timeRange intent \<noteq> None"
    and "url_valid host (argovisBaseUrl config @ ''/argo'')"
    and "\<forall>req. fetch host req w = (Inl (JsError ''AbortError'' msg), w1)"
  shows "retrieveData host config intent w =
           (Inl (JsError ''TypeError'' ''Cannot read properties of undefined''), w1)"
proof -
  from assms(2) have "region intent \<noteq> None \<or> timeRange intent \<noteq> None" by simp
  from retrieveData_unfold [OF this assms(3), of w]
  obtain req etr ereg where r: "retrieveData host config intent w =
     (case fetch_profiles host req etr ereg w of
        (Inr d, w1) \<Rightarrow> (Inr d, w1)
      | (Inl error, w1) \<Rightarrow>
          if exn_name error = Some ''AbortError''
          then generateFallbackDataForRegion host (region intent) (timeRange intent) w1
          else (Inr \<lparr>profiles = [],
                     metadata = \<lparr>totalProfiles = 0, dateRange = etr,
                                 md_region = name_or (r_name ereg) ''Unknown'',
                                 source = ''Argovis (failed)''\<rparr>,
                     isEmpty = True\<rparr>, w1))"
    by blast
  from assms(4) have "fetch_profiles host req etr ereg w = (Inl (JsError ''AbortError'' msg), w1)"
    by (simp add: fetch_profiles_def)
  with r assms(1) show ?thesis
    by (simp add: generateFallbackDataForRegion_def)
qed

text \<open>
  C5 does not hold of the code: it says that \<open>retrieveData\<close> returns the failure handler's
  synthetic result when the API call times out, also for an intent with a time range
  and no region. Run on such an intent, with a \<open>fetch\<close> that the timeout aborts,
  \<open>retrieveData\<close> rejects with a \<open>TypeError\<close>; one request was made.
\<close>

theorem retrieveData_timeout_rejects:
  "retrieveData
     (test_host (fetch_always (Inl (JsError ''AbortError'' ''This operation was aborted''))))
     test_config (test_intent None (Some year_2020) EXPLORER) (0::nat)
   = (Inl (JsError ''TypeError'' ''Cannot read properties of undefined''), 1)"
  by (simp add: retrieveData_def fetch_profiles_def test_host_def fetch_always_def
      test_config_def test_intent_def year_2020_def generateFallbackDataForRegion_def Let_def)

text \<open>
  Where the intent has both a region and a time range with valid dates, the timeout path
  does return the synthetic result.
\<close>

lemma retrieveData_timeout_fallback:
  assumes ok: "host_ok host"
    and reg: "region intent = Some r" and tr: "timeRange intent = Some t"
    and s: "date_parse host (tr_start t) = Some t0" and e: "date_parse host (tr_end t) = Some t1"
    and url: "url_valid host (argovisBaseUrl config @ ''/argo'')"
    and fetch: "\<forall>req. fetch host req w = (Inl (JsError ''AbortError'' msg), w1)"
  shows "\<exists>d w'. retrieveData host config intent w = (Inr d, w')
           \<and> \<not> isEmpty d
           \<and> source (metadata d) = ''Fallback (API timeout)''
           \<and> length (profiles d) = 30"
proof -
  from reg have "region intent \<noteq> None \<or> timeRange intent \<noteq> None" by simp
  from retrieveData_unfold [OF this url, of w]
  obtain req etr ereg where r: "retrieveData host config intent w =
     (case fetch_profiles host req etr ereg w of
        (Inr d, w1) \<Rightarrow> (Inr d, w1)
      | (Inl error, w1) \<Rightarrow>
          if exn_name error = Some ''AbortError''
          then generateFallbackDataForRegion host (region intent) (timeRange intent) w1
          else (Inr \<lparr>profiles = [],
                     metadata = \<lparr>totalProfiles = 0, dateRange = etr,
                                 md_region = name_or (r_name ereg) ''Unknown'',
                                 source = ''Argovis (failed)''\<rparr>,
                     isEmpty = True\<rparr>, w1))"
    by blast
  from fetch have "fetch_profiles host req etr ereg w = (Inl (JsError ''AbortError'' msg), w1)"
    by (simp add: fetch_profiles_def)
  with r reg tr have r': "retrieveData host config intent w
      = generateFallbackDataForRegion host (Some r) (Some t) w1"
    by simp
  from fallback_profile_succeeds [OF ok s e]
  have body: "\<And>i w. \<exists>p w'. fallback_profile host ''timeout_fallback_'' 1500 (bounds r) (Some t) i w
                = (Inr p, w')" by blast
  from fallback_loop_succeeds
    [of "fallback_profile host ''timeout_fallback_'' 1500 (bounds r) (Some t)" 30 0 "[]" w1,
     OF body]
  obtain ps w' where
    "fallback_loop (fallback_profile host ''timeout_fallback_'' 1500 (bounds r) (Some t)) 30 0 [] w1
       = (Inr ps, w')" and "length ps = 30"
    by auto
  then have "\<exists>d w'. generateFallbackDataForRegion host (Some r) (Some t) w1 = (Inr d, w')
           \<and> \<not> isEmpty d
           \<and> source (metadata d) = ''Fallback (API timeout)''
           \<and> length (profiles d) = 30"
    by (simp add: generateFallbackDataForRegion_def Let_def)
  with r' show ?thesis by simp
qed

text \<open>An intent with a region and no time range fares no better: the first round of the
  generator's loop reads \<open>timeRange.start\<close>.\<close>

lemma retrieveData_timeout_no_timeRange:
  "fst (retrieveData
     (test_host (fetch_always (Inl (JsError ''AbortError'' ''This operation was aborted''))))
     test_config (test_intent (Some arctic) None EXPLORER) (0::nat))
   = Inl (JsError ''TypeError'' ''Cannot read properties of undefined'')"
  by (simp add: retrieveData_def fetch_profiles_def test_host_def fetch_always_def
      test_config_def test_intent_def arctic_def generateFallbackDataForRegion_def
      fallback_loop.simps [of _ 30 0] fallback_profile_def Let_def)






end
